theory Spec2Isabelle
  imports
    Complex_Main
    "HOL-Library.Char_ord"
    "HOL-Library.List_Lexorder"
    "HOL-Library.Product_Lexorder"
    "HOL-Library.Option_ord"
begin

section \<open>Cells of the data frames\<close>

text \<open>
  The numeric columns of the scripts are float64 columns.  A cell is a finite number, one
  of the two infinities, or NaN, which is what pandas calls a null cell (\<open>isna\<close>,
  \<open>dropna\<close>, the skipping done by \<open>GroupBy.first\<close>).  The infinities are not null.
  Finite arithmetic is idealised: the finite values are real numbers, so rounding, overflow
  to infinity and the sign of zero are left out.  The special cases follow IEEE 754 as numpy
  applies it to a column: a nonzero finite number divided by zero is an infinity, zero
  divided by zero is NaN, and NaN is absorbing.
\<close>

datatype fval = Fin real | PInf | NInf | NaN

definition isna :: "fval \<Rightarrow> bool" where
  "isna v = (v = NaN)"

fun fneg :: "fval \<Rightarrow> fval" where
  "fneg (Fin a) = Fin (- a)"
| "fneg PInf = NInf"
| "fneg NInf = PInf"
| "fneg NaN = NaN"

fun fadd :: "fval \<Rightarrow> fval \<Rightarrow> fval" where
  "fadd NaN _ = NaN"
| "fadd _ NaN = NaN"
| "fadd (Fin a) (Fin b) = Fin (a + b)"
| "fadd PInf NInf = NaN"
| "fadd NInf PInf = NaN"
| "fadd PInf _ = PInf"
| "fadd _ PInf = PInf"
| "fadd NInf _ = NInf"
| "fadd _ NInf = NInf"

definition fsub :: "fval \<Rightarrow> fval \<Rightarrow> fval" where
  "fsub a b = fadd a (fneg b)"

fun fmul :: "fval \<Rightarrow> fval \<Rightarrow> fval" where
  "fmul NaN _ = NaN"
| "fmul _ NaN = NaN"
| "fmul (Fin a) (Fin b) = Fin (a * b)"
| "fmul (Fin a) PInf = (if a = 0 then NaN else if 0 < a then PInf else NInf)"
| "fmul (Fin a) NInf = (if a = 0 then NaN else if 0 < a then NInf else PInf)"
| "fmul PInf (Fin b) = (if b = 0 then NaN else if 0 < b then PInf else NInf)"
| "fmul NInf (Fin b) = (if b = 0 then NaN else if 0 < b then NInf else PInf)"
| "fmul PInf PInf = PInf"
| "fmul PInf NInf = NInf"
| "fmul NInf PInf = NInf"
| "fmul NInf NInf = PInf"

fun fdiv :: "fval \<Rightarrow> fval \<Rightarrow> fval" where
  "fdiv NaN _ = NaN"
| "fdiv _ NaN = NaN"
| "fdiv (Fin a) (Fin b) =
     (if b = 0 then (if a = 0 then NaN else if 0 < a then PInf else NInf)
      else Fin (a / b))"
| "fdiv (Fin a) PInf = Fin 0"
| "fdiv (Fin a) NInf = Fin 0"
| "fdiv PInf (Fin b) = (if 0 \<le> b then PInf else NInf)"
| "fdiv NInf (Fin b) = (if 0 \<le> b then NInf else PInf)"
| "fdiv PInf PInf = NaN"
| "fdiv PInf NInf = NaN"
| "fdiv NInf PInf = NaN"
| "fdiv NInf NInf = NaN"

text \<open>
  A date is a day number (days since 1970-01-01), so \<open>pd.Timedelta(days=7)\<close> is \<open>7\<close>.
  \<open>year_of\<close> is the calendar year of a day number in the proleptic Gregorian calendar,
  the value of \<open>.dt.year\<close>.
\<close>

type_synonym date = int

definition year_of :: "date \<Rightarrow> int" where
  "year_of days =
    (let z = days + 719468;
         era = z div 146097;
         doe = z mod 146097;
         yoe = (doe - doe div 1460 + doe div 36524 - doe div 146096) div 365;
         doy = doe - (365 * yoe + yoe div 4 - yoe div 100);
         mp = (5 * doy + 2) div 153
     in if mp < 10 then yoe + era * 400 else yoe + era * 400 + 1)"

section \<open>Configuration\<close>

definition START_YEAR :: int where
  "START_YEAR = 2000"

definition MAX_RETRY :: nat where
  "MAX_RETRY = 5"

definition RETRY_DELAY :: nat where
  "RETRY_DELAY = 8"

definition CAPEX_CANDS :: "string list" where
  "CAPEX_CANDS =
    [''Change in Fixed Assets & Intangibles'',
     ''Purchase of PPE & Intangibles, net'',
     ''Capital Expenditures (Fixed Assets)'',
     ''Capital Expenditures'']"

section \<open>Exceptions\<close>

text \<open>
  \<open>HTTPError\<close> carries the status code of its response, or \<open>None\<close> when the exception
  has no response object; reading \<open>e.response.status_code\<close> then raises
  \<open>AttributeError\<close>.  \<open>CapExNotFound\<close> is the \<open>KeyError\<close> raised by the scripts
  themselves; \<open>ColumnMissing\<close> is the \<open>KeyError\<close> of a column selection.
\<close>

datatype exn =
    HTTPError "int option"
  | AttributeError
  | OtherError string
  | CapExNotFound "string list"
  | ColumnMissing string

section \<open>The retry helper\<close>

text \<open>
  The wrapped call has effects, so it is a function from the number of earlier invocations
  to what this invocation does: it returns a value or throws.  \<open>retry\<close> gives back its own
  result, the list of sleeps it made (in seconds, in order) and how often it invoked the
  call.  A \<open>for\<close> loop that runs out returns Python's \<open>None\<close>.
\<close>

datatype 'a outcome = Value 'a | Throws exn

datatype 'a result = Returned 'a | Raised exn | ReturnedNone

function retry_loop ::
  "(nat \<Rightarrow> 'a outcome) \<Rightarrow> nat \<Rightarrow> nat list \<Rightarrow> 'a result \<times> nat list \<times> nat" where
  "retry_loop func i sleeps =
     (if i < MAX_RETRY then
        (case func i of
           Value v \<Rightarrow> (Returned v, sleeps, i + 1)
         | Throws (HTTPError resp) \<Rightarrow>
             if i = MAX_RETRY - 1 then (Raised (HTTPError resp), sleeps, i + 1)
             else (case resp of
                     None \<Rightarrow> (Raised AttributeError, sleeps, i + 1)
                   | Some status_code \<Rightarrow>
                       if \<not> (500 \<le> status_code \<and> status_code < 600)
                       then (Raised (HTTPError resp), sleeps, i + 1)
                       else retry_loop func (i + 1) (sleeps @ [RETRY_DELAY * 2 ^ i]))
         | Throws e \<Rightarrow> (Raised e, sleeps, i + 1))
      else (ReturnedNone, sleeps, i))"
  by pat_completeness auto
termination
  by (relation "measure (\<lambda>(func, i, sleeps). MAX_RETRY - i)") auto

declare retry_loop.simps [simp del]

definition retry :: "(nat \<Rightarrow> 'a outcome) \<Rightarrow> 'a result \<times> nat list \<times> nat" where
  "retry func = retry_loop func 0 []"

section \<open>The input tables\<close>

text \<open>
  The cash-flow table has provider-defined columns: a row gives its two key cells and, for
  a column name, the cell of that column.  The income and share-price tables are read at
  fixed columns only, so their rows are records of exactly those.  Ticker and the date
  columns come from the index of the provider's tables and are never null.
\<close>

record cf_row =
  cf_Ticker :: string
  cf_ReportDate :: date
  cf_cell :: "string \<Rightarrow> fval"

record cf_frame =
  cf_columns :: "string list"
  cf_rows :: "cf_row list"

record inc_row =
  inc_Ticker :: string
  inc_ReportDate :: date
  inc_Shares :: fval
  inc_Revenue :: fval
  inc_NetIncome :: fval

record px_row =
  px_Ticker :: string
  px_TradeDate :: date
  px_Price :: fval

section \<open>Fundamentals\<close>

text \<open>The CapEx column: the first candidate that is a column of the cash-flow table.\<close>

definition capex_col :: "string list \<Rightarrow> string option" where
  "capex_col columns = List.find (\<lambda>c. c \<in> set columns) CAPEX_CANDS"

text \<open>
  Each assignment of a new column is a record extension, so a row of a later frame still
  has every field of the earlier one.
\<close>

record cf_sel =
  Ticker :: string
  ReportDate :: date
  OCF :: fval
  CAPEX :: fval
  FCF :: fval

record fund_m = cf_sel +
  Shares :: fval
  Revenue :: fval
  NetIncome :: fval

record fund_p = fund_m +
  FCF_per_share :: fval

text \<open>
  The growth columns of the extended script; \<open>Y1\<close>, \<open>Y2\<close>, \<open>Y3\<close> stand for its column
  names \<open>1Y_\<close>, \<open>2Y_\<close>, \<open>3Y_\<close>.  The basic script computes the lag-4 and lag-8 columns only, under
  the names \<open>YoY_FCFps_growth\<close> and \<open>YoY2_FCFps_growth\<close>.  The helper columns
  \<open>FCFps_lagN\<close> are read only by the growth column next to them and are local values here.
\<close>

record fund_row = fund_p +
  Yo6M_FCFps_growth :: fval
  Y1_FCFps_growth :: fval
  Y2_FCFps_growth :: fval
  Y3_FCFps_growth :: fval

definition select_cf :: "string \<Rightarrow> cf_row list \<Rightarrow> cf_sel list" where
  "select_cf capex rows =
     map (\<lambda>r. \<lparr>Ticker = cf_Ticker r, ReportDate = cf_ReportDate r,
               OCF = cf_cell r ''Net Cash from Operating Activities'',
               CAPEX = cf_cell r capex,
               FCF = fadd (cf_cell r ''Net Cash from Operating Activities'') (cf_cell r capex)\<rparr>)
         rows"

text \<open>
  \<open>cf.merge(inc, on=["Ticker","Report Date"])\<close>: an inner join, in the order of the left
  rows, each with its matching right rows.
\<close>

definition merge_inner :: "cf_sel list \<Rightarrow> inc_row list \<Rightarrow> fund_m list" where
  "merge_inner cf inc =
     concat (map (\<lambda>c. map (\<lambda>i. cf_sel.extend c
                                  (fund_m.fields (inc_Shares i) (inc_Revenue i) (inc_NetIncome i)))
                          (filter (\<lambda>i. inc_Ticker i = Ticker c \<and> inc_ReportDate i = ReportDate c)
                                  inc))
                 cf)"

definition add_FCF_per_share :: "fund_m list \<Rightarrow> fund_p list" where
  "add_FCF_per_share rows =
     map (\<lambda>r. fund_m.extend r (fund_p.fields (fdiv (FCF r) (Shares r)))) rows"

text \<open>
  \<open>frame.groupby(key)[col].shift(n)\<close>: the cell of row \<open>i\<close> is the \<open>col\<close> cell of the row
  that stands \<open>n\<close> places before row \<open>i\<close> among the rows of the same group, in frame order, and
  null when the group has fewer than \<open>n\<close> rows before row \<open>i\<close>.
\<close>

definition shift_at :: "('r \<Rightarrow> 'k) \<Rightarrow> ('r \<Rightarrow> fval) \<Rightarrow> nat \<Rightarrow> 'r list \<Rightarrow> nat \<Rightarrow> fval" where
  "shift_at key col n rows i =
     (let g = filter (\<lambda>r. key r = key (rows ! i)) (take i rows)
      in if length g < n then NaN else col (g ! (length g - n)))"

definition group_shift :: "('r \<Rightarrow> 'k) \<Rightarrow> ('r \<Rightarrow> fval) \<Rightarrow> nat \<Rightarrow> 'r list \<Rightarrow> fval list" where
  "group_shift key col n rows = map (shift_at key col n rows) [0..<length rows]"

definition growth :: "fval \<Rightarrow> fval \<Rightarrow> fval" where
  "growth v lag = fdiv (fsub v lag) lag"

definition add_FCFps_growth :: "fund_p list \<Rightarrow> fund_row list" where
  "add_FCFps_growth rows =
     map (\<lambda>i. let r = rows ! i;
                  FCFps_lag2 = group_shift Ticker FCF_per_share 2 rows ! i;
                  FCFps_lag4 = group_shift Ticker FCF_per_share 4 rows ! i;
                  FCFps_lag8 = group_shift Ticker FCF_per_share 8 rows ! i;
                  FCFps_lag12 = group_shift Ticker FCF_per_share 12 rows ! i
              in fund_p.extend r
                   (fund_row.fields (growth (FCF_per_share r) FCFps_lag2)
                                    (growth (FCF_per_share r) FCFps_lag4)
                                    (growth (FCF_per_share r) FCFps_lag8)
                                    (growth (FCF_per_share r) FCFps_lag12)))
         [0..<length rows]"

text \<open>
  The frame before the growth columns: joined, filtered by year, with FCF per share, and
  sorted.  \<open>sort_values\<close> on several columns is a stable sort, as \<open>sort_key\<close> is.
\<close>

definition fund_sorted :: "string \<Rightarrow> cf_row list \<Rightarrow> inc_row list \<Rightarrow> fund_p list" where
  "fund_sorted capex cf inc =
     sort_key (\<lambda>r. (Ticker r, ReportDate r))
       (add_FCF_per_share
          (filter (\<lambda>d. START_YEAR \<le> year_of (ReportDate d))
                  (merge_inner (select_cf capex cf) inc)))"

definition fundamentals :: "string \<Rightarrow> cf_row list \<Rightarrow> inc_row list \<Rightarrow> fund_row list" where
  "fundamentals capex cf inc = add_FCFps_growth (fund_sorted capex cf inc)"

section \<open>Prices and their alignment\<close>

definition prices :: "px_row list \<Rightarrow> px_row list" where
  "prices px = sort_key (\<lambda>p. (px_Ticker p, px_TradeDate p)) px"

text \<open>
  A row of \<open>temp\<close>.  After the left join a key without any price row has a null trade date
  (\<open>None\<close>) and a null price.
\<close>

record temp_row =
  t_Ticker :: string
  t_RptDate :: date
  t_TradeDate :: "date option"
  t_Price :: fval

definition merge_left_px :: "(string \<times> date) list \<Rightarrow> px_row list \<Rightarrow> temp_row list" where
  "merge_left_px fund_keyed px =
     concat (map (\<lambda>(t, d).
                    let ms = filter (\<lambda>p. px_Ticker p = t) px
                    in if ms = []
                       then [\<lparr>t_Ticker = t, t_RptDate = d, t_TradeDate = None, t_Price = NaN\<rparr>]
                       else map (\<lambda>p. \<lparr>t_Ticker = t, t_RptDate = d,
                                       t_TradeDate = Some (px_TradeDate p),
                                       t_Price = px_Price p\<rparr>) ms)
                 fund_keyed)"

text \<open>The row filter: a comparison with a null date is false.\<close>

definition in_window :: "temp_row \<Rightarrow> bool" where
  "in_window d =
     (case t_TradeDate d of
        None \<Rightarrow> False
      | Some td \<Rightarrow> t_RptDate d \<le> td \<and> td \<le> t_RptDate d + 7)"

text \<open>
  \<open>groupby([...], as_index=False).first()\<close>: one row for each key, the keys in ascending
  order, and in each other column the first cell of the group that is not null.
\<close>

definition first_date :: "date option list \<Rightarrow> date option" where
  "first_date xs = (case filter (\<lambda>x. x \<noteq> None) xs of [] \<Rightarrow> None | x # _ \<Rightarrow> x)"

definition first_val :: "fval list \<Rightarrow> fval" where
  "first_val vs = (case filter (\<lambda>v. v \<noteq> NaN) vs of [] \<Rightarrow> NaN | v # _ \<Rightarrow> v)"

definition group_first :: "temp_row list \<Rightarrow> temp_row list" where
  "group_first rows =
     map (\<lambda>(t, d).
            let g = filter (\<lambda>r. t_Ticker r = t \<and> t_RptDate r = d) rows
            in \<lparr>t_Ticker = t, t_RptDate = d,
                t_TradeDate = first_date (map t_TradeDate g),
                t_Price = first_val (map t_Price g)\<rparr>)
         (sort (remdups (map (\<lambda>r. (t_Ticker r, t_RptDate r)) rows)))"

definition temp :: "fund_row list \<Rightarrow> px_row list \<Rightarrow> temp_row list" where
  "temp fund px =
     group_first
       (sort_key (\<lambda>r. (t_Ticker r, t_RptDate r, t_TradeDate r))
          (filter in_window
             (merge_left_px (map (\<lambda>f. (Ticker f, ReportDate f)) fund) px)))"

record merged_row = fund_row +
  TradeDate :: "date option"
  Price :: fval

text \<open>
  \<open>fund.merge(temp, left_on=..., right_on=..., how="left")\<close>: the rows of \<open>fund\<close> in their
  order, each with its matching rows of \<open>temp\<close>, or once with null cells when it has none.
\<close>

definition merge_back :: "fund_row list \<Rightarrow> temp_row list \<Rightarrow> merged_row list" where
  "merge_back fund tmp =
     concat (map (\<lambda>f.
                    let ms = filter (\<lambda>r. t_Ticker r = Ticker f \<and> t_RptDate r = ReportDate f) tmp
                    in if ms = []
                       then [fund_row.extend f (merged_row.fields None NaN)]
                       else map (\<lambda>r. fund_row.extend f
                                        (merged_row.fields (t_TradeDate r) (t_Price r))) ms)
                 fund)"

definition dropna_Price :: "merged_row list \<Rightarrow> merged_row list" where
  "dropna_Price rows = filter (\<lambda>m. \<not> isna (Price m)) rows"

definition merged :: "fund_row list \<Rightarrow> px_row list \<Rightarrow> merged_row list" where
  "merged fund px = dropna_Price (merge_back fund (temp fund (prices px)))"

section \<open>Metrics and the output table\<close>

record mcap_row = merged_row +
  Market_Cap :: fval

record metrics_row = mcap_row +
  M6_Price_growth :: fval
  Y1_Price_growth :: fval
  Y2_Price_growth :: fval
  Y3_Price_growth :: fval

definition add_Market_Cap :: "merged_row list \<Rightarrow> mcap_row list" where
  "add_Market_Cap rows =
     map (\<lambda>m. merged_row.extend m (mcap_row.fields (fmul (Price m) (Shares m)))) rows"

definition add_Price_growth :: "mcap_row list \<Rightarrow> metrics_row list" where
  "add_Price_growth rows =
     map (\<lambda>i. let r = rows ! i;
                  Price_lag2 = group_shift Ticker Price 2 rows ! i;
                  Price_lag4 = group_shift Ticker Price 4 rows ! i;
                  Price_lag8 = group_shift Ticker Price 8 rows ! i;
                  Price_lag12 = group_shift Ticker Price 12 rows ! i
              in mcap_row.extend r
                   (metrics_row.fields (growth (Price r) Price_lag2)
                                       (growth (Price r) Price_lag4)
                                       (growth (Price r) Price_lag8)
                                       (growth (Price r) Price_lag12)))
         [0..<length rows]"

definition metrics :: "merged_row list \<Rightarrow> metrics_row list" where
  "metrics rows = add_Price_growth (add_Market_Cap rows)"

text \<open>The sixteen columns written by the extended script, in its order.\<close>

record final_row =
  fin_Ticker :: string
  fin_ReportDate :: date
  fin_Price :: fval
  fin_6M_Price_growth :: fval
  fin_1Y_Price_growth :: fval
  fin_2Y_Price_growth :: fval
  fin_3Y_Price_growth :: fval
  fin_Market_Cap :: fval
  fin_Revenue :: fval
  fin_NetIncome :: fval
  fin_FCF :: fval
  fin_FCF_per_share :: fval
  fin_Yo6M_FCFps_growth :: fval
  fin_1Y_FCFps_growth :: fval
  fin_2Y_FCFps_growth :: fval
  fin_3Y_FCFps_growth :: fval

definition select_final :: "metrics_row \<Rightarrow> final_row" where
  "select_final m =
     \<lparr>fin_Ticker = Ticker m, fin_ReportDate = ReportDate m,
      fin_Price = Price m,
      fin_6M_Price_growth = M6_Price_growth m, fin_1Y_Price_growth = Y1_Price_growth m,
      fin_2Y_Price_growth = Y2_Price_growth m, fin_3Y_Price_growth = Y3_Price_growth m,
      fin_Market_Cap = Market_Cap m,
      fin_Revenue = Revenue m, fin_NetIncome = NetIncome m,
      fin_FCF = FCF m, fin_FCF_per_share = FCF_per_share m,
      fin_Yo6M_FCFps_growth = Yo6M_FCFps_growth m, fin_1Y_FCFps_growth = Y1_FCFps_growth m,
      fin_2Y_FCFps_growth = Y2_FCFps_growth m, fin_3Y_FCFps_growth = Y3_FCFps_growth m\<rparr>"

text \<open>
  The ten columns written by the basic script.  Its \<open>YoY\<close> columns are the shift-by-4 columns
  and its \<open>YoY2\<close> columns the shift-by-8 columns, computed by the same statements.
\<close>

record basic_row =
  bas_Ticker :: string
  bas_ReportDate :: date
  bas_Price :: fval
  bas_YoY_Price_growth :: fval
  bas_YoY2_Price_growth :: fval
  bas_Market_Cap :: fval
  bas_FCF :: fval
  bas_FCF_per_share :: fval
  bas_YoY_FCFps_growth :: fval
  bas_YoY2_FCFps_growth :: fval

definition select_basic :: "metrics_row \<Rightarrow> basic_row" where
  "select_basic m =
     \<lparr>bas_Ticker = Ticker m, bas_ReportDate = ReportDate m,
      bas_Price = Price m,
      bas_YoY_Price_growth = Y1_Price_growth m, bas_YoY2_Price_growth = Y2_Price_growth m,
      bas_Market_Cap = Market_Cap m, bas_FCF = FCF m, bas_FCF_per_share = FCF_per_share m,
      bas_YoY_FCFps_growth = Y1_FCFps_growth m, bas_YoY2_FCFps_growth = Y2_FCFps_growth m\<rparr>"

section \<open>The scripts\<close>

text \<open>
  The body of a script after its tables are loaded.  The CapEx column is resolved first;
  the column selection that follows needs the operating cash-flow column.
\<close>

definition aligned :: "string \<Rightarrow> cf_row list \<Rightarrow> inc_row list \<Rightarrow> px_row list \<Rightarrow> metrics_row list" where
  "aligned capex cf inc px = metrics (merged (fundamentals capex cf inc) px)"

definition resolve :: "cf_frame \<Rightarrow> exn + string" where
  "resolve cf =
     (case capex_col (cf_columns cf) of
        None \<Rightarrow> Inl (CapExNotFound CAPEX_CANDS)
      | Some c \<Rightarrow>
          if c = [] then Inl (CapExNotFound CAPEX_CANDS)
          else if ''Net Cash from Operating Activities'' \<notin> set (cf_columns cf)
               then Inl (ColumnMissing ''Net Cash from Operating Activities'')
               else Inr c)"

definition build_fcf_dataset_simfin ::
  "cf_frame \<Rightarrow> inc_row list \<Rightarrow> px_row list \<Rightarrow> exn + final_row list" where
  "build_fcf_dataset_simfin cf inc px =
     (case resolve cf of
        Inl e \<Rightarrow> Inl e
      | Inr capex \<Rightarrow> Inr (map select_final (aligned capex (cf_rows cf) inc px)))"

definition build_fcf_dataset ::
  "cf_frame \<Rightarrow> inc_row list \<Rightarrow> px_row list \<Rightarrow> exn + basic_row list" where
  "build_fcf_dataset cf inc px =
     (case resolve cf of
        Inl e \<Rightarrow> Inl e
      | Inr capex \<Rightarrow> Inr (map select_basic (aligned capex (cf_rows cf) inc px)))"

section \<open>Notions used in the statements and their proofs\<close>

text \<open>
  The price rows a report date can be aligned to: the rows of the ticker whose trade date
  lies in the window of seven days that starts at the report date.
\<close>

definition candidates :: "px_row list \<Rightarrow> string \<Rightarrow> date \<Rightarrow> px_row list" where
  "candidates px t d =
     filter (\<lambda>p. px_Ticker p = t \<and> d \<le> px_TradeDate p \<and> px_TradeDate p \<le> d + 7) px"

text \<open>The row that the left join makes of a key and one of its price rows.\<close>

definition temp_of :: "string \<Rightarrow> date \<Rightarrow> px_row \<Rightarrow> temp_row" where
  "temp_of t d p = \<lparr>t_Ticker = t, t_RptDate = d, t_TradeDate = Some (px_TradeDate p), t_Price = px_Price p\<rparr>"

text \<open>
  \<open>first_priced C v\<close>: \<open>v\<close> is the price of the earliest row of \<open>C\<close> that has a price,
  that is, a price that is not null of a row before which, by trade date, all prices are
  null; or \<open>v\<close> is null and so is every price in \<open>C\<close>.
\<close>

definition first_priced :: "px_row list \<Rightarrow> fval \<Rightarrow> bool" where
  "first_priced C v \<longleftrightarrow>
     (v = NaN \<and> (\<forall>p \<in> set C. px_Price p = NaN)) \<or>
     (\<exists>p \<in> set C. px_Price p = v \<and> v \<noteq> NaN \<and>
        (\<forall>q \<in> set C. px_TradeDate q < px_TradeDate p \<longrightarrow> px_Price q = NaN))"

text \<open>The frame on which \<open>temp\<close> groups.\<close>

definition temp_sorted :: "fund_row list \<Rightarrow> px_row list \<Rightarrow> temp_row list" where
  "temp_sorted fund px =
     sort_key (\<lambda>r. (t_Ticker r, t_RptDate r, t_TradeDate r))
          (filter in_window
             (merge_left_px (map (\<lambda>f. (Ticker f, ReportDate f)) fund) px))"

text \<open>What the join back onto \<open>fund\<close> gives a row when the keys of \<open>temp\<close> are distinct.\<close>

definition price_match :: "temp_row list \<Rightarrow> fund_row \<Rightarrow> merged_row" where
  "price_match tmp f =
     (case List.find (\<lambda>r. t_Ticker r = Ticker f \<and> t_RptDate r = ReportDate f) tmp of
        None \<Rightarrow> fund_row.extend f (merged_row.fields None NaN)
      | Some r \<Rightarrow> fund_row.extend f (merged_row.fields (t_TradeDate r) (t_Price r)))"


definition Price_growth_col :: "nat \<Rightarrow> 'a metrics_row_scheme \<Rightarrow> fval" where
  "Price_growth_col L r =
     (if L = 2 then M6_Price_growth r
      else if L = 4 then Y1_Price_growth r
      else if L = 8 then Y2_Price_growth r
      else Y3_Price_growth r)"

text \<open>
  The alignment as the specification words it: the row has the trade date and the price of
  a price row of its ticker with the earliest trade date in the window.
\<close>

definition price_at_earliest :: "px_row list \<Rightarrow> merged_row \<Rightarrow> bool" where
  "price_at_earliest px m \<longleftrightarrow>
     (\<exists>p \<in> set (candidates px (Ticker m) (ReportDate m)).
        px_TradeDate p = Min (px_TradeDate ` set (candidates px (Ticker m) (ReportDate m)))
        \<and> TradeDate m = Some (px_TradeDate p) \<and> Price m = px_Price p)"

text \<open>
  The price growth as the specification words it: the trailing-lag computation over all the
  quarterly report periods of a ticker, where a period that found no price has a null price.
\<close>

definition Price_growth_over_periods :: "nat \<Rightarrow> merged_row list \<Rightarrow> nat \<Rightarrow> fval" where
  "Price_growth_over_periods L periods t =
     (if t < L then NaN else growth (Price (periods ! t)) (Price (periods ! (t - L))))"

section \<open>A worked example\<close>

text \<open>
  One ticker with four quarters (2021-03-31, 2021-06-30, 2021-09-30 and 2021-12-31 as day
  numbers) and an income row of a second ticker that has no cash-flow row.  The first quarter
  has a free cash flow of zero.  The price series has a null price on the first trade date
  after the third report date and no trade date in the week after the fourth.
\<close>

definition ex_columns :: "string list" where
  "ex_columns = [''Ticker'', ''Report Date'', ''Net Cash from Operating Activities'',
                 ''Capital Expenditures'']"

definition ex_cells :: "real \<Rightarrow> real \<Rightarrow> string \<Rightarrow> fval" where
  "ex_cells ocf capex c =
     (if c = ''Net Cash from Operating Activities'' then Fin ocf
      else if c = ''Capital Expenditures'' then Fin capex else NaN)"

definition ex_cf :: "cf_row list" where
  "ex_cf =
    [\<lparr>cf_Ticker = ''A'', cf_ReportDate = 18717, cf_cell = ex_cells 1 (- 1)\<rparr>,
     \<lparr>cf_Ticker = ''A'', cf_ReportDate = 18808, cf_cell = ex_cells 5 (- 1)\<rparr>,
     \<lparr>cf_Ticker = ''A'', cf_ReportDate = 18900, cf_cell = ex_cells 3 (- 1)\<rparr>,
     \<lparr>cf_Ticker = ''A'', cf_ReportDate = 18992, cf_cell = ex_cells 4 (- 1)\<rparr>]"

definition ex_inc :: "inc_row list" where
  "ex_inc =
    [\<lparr>inc_Ticker = ''A'', inc_ReportDate = 18717, inc_Shares = Fin 2, inc_Revenue = Fin 10, inc_NetIncome = Fin 1\<rparr>,
     \<lparr>inc_Ticker = ''A'', inc_ReportDate = 18808, inc_Shares = Fin 2, inc_Revenue = Fin 10, inc_NetIncome = Fin 1\<rparr>,
     \<lparr>inc_Ticker = ''A'', inc_ReportDate = 18900, inc_Shares = Fin 2, inc_Revenue = Fin 10, inc_NetIncome = Fin 1\<rparr>,
     \<lparr>inc_Ticker = ''A'', inc_ReportDate = 18992, inc_Shares = Fin 2, inc_Revenue = Fin 10, inc_NetIncome = Fin 1\<rparr>,
     \<lparr>inc_Ticker = ''B'', inc_ReportDate = 18717, inc_Shares = Fin 5, inc_Revenue = Fin 10, inc_NetIncome = Fin 1\<rparr>]"

definition ex_px :: "px_row list" where
  "ex_px =
    [\<lparr>px_Ticker = ''A'', px_TradeDate = 18718, px_Price = Fin 10\<rparr>,
     \<lparr>px_Ticker = ''A'', px_TradeDate = 18808, px_Price = Fin 20\<rparr>,
     \<lparr>px_Ticker = ''A'', px_TradeDate = 18902, px_Price = NaN\<rparr>,
     \<lparr>px_Ticker = ''A'', px_TradeDate = 18903, px_Price = Fin 30\<rparr>,
     \<lparr>px_Ticker = ''A'', px_TradeDate = 18920, px_Price = Fin 40\<rparr>]"

definition ex_frame :: cf_frame where
  "ex_frame = \<lparr>cf_columns = ex_columns, cf_rows = ex_cf\<rparr>"

text \<open>The frames that the scripts compute from the example.\<close>

definition ex_fund :: "fund_row list" where
  "ex_fund =
    [\<lparr>Ticker = ''A'', ReportDate = 18717, OCF = Fin 1, CAPEX = Fin (- 1), FCF = Fin 0, Shares = Fin 2, Revenue = Fin 10, NetIncome = Fin 1, FCF_per_share = Fin 0, Yo6M_FCFps_growth = NaN, Y1_FCFps_growth = NaN, Y2_FCFps_growth = NaN, Y3_FCFps_growth = NaN\<rparr>,
     \<lparr>Ticker = ''A'', ReportDate = 18808, OCF = Fin 5, CAPEX = Fin (- 1), FCF = Fin 4, Shares = Fin 2, Revenue = Fin 10, NetIncome = Fin 1, FCF_per_share = Fin 2, Yo6M_FCFps_growth = NaN, Y1_FCFps_growth = NaN, Y2_FCFps_growth = NaN, Y3_FCFps_growth = NaN\<rparr>,
     \<lparr>Ticker = ''A'', ReportDate = 18900, OCF = Fin 3, CAPEX = Fin (- 1), FCF = Fin 2, Shares = Fin 2, Revenue = Fin 10, NetIncome = Fin 1, FCF_per_share = Fin 1, Yo6M_FCFps_growth = PInf, Y1_FCFps_growth = NaN, Y2_FCFps_growth = NaN, Y3_FCFps_growth = NaN\<rparr>,
     \<lparr>Ticker = ''A'', ReportDate = 18992, OCF = Fin 4, CAPEX = Fin (- 1), FCF = Fin 3, Shares = Fin 2, Revenue = Fin 10, NetIncome = Fin 1, FCF_per_share = Fin (3 / 2), Yo6M_FCFps_growth = Fin (- (1 / 4)), Y1_FCFps_growth = NaN, Y2_FCFps_growth = NaN, Y3_FCFps_growth = NaN\<rparr>]"

definition ex_aligned :: "metrics_row list" where
  "ex_aligned =
    [\<lparr>Ticker = ''A'', ReportDate = 18717, OCF = Fin 1, CAPEX = Fin (- 1), FCF = Fin 0, Shares = Fin 2, Revenue = Fin 10, NetIncome = Fin 1, FCF_per_share = Fin 0, Yo6M_FCFps_growth = NaN, Y1_FCFps_growth = NaN, Y2_FCFps_growth = NaN, Y3_FCFps_growth = NaN, TradeDate = Some 18718, Price = Fin 10, Market_Cap = Fin 20, M6_Price_growth = NaN, Y1_Price_growth = NaN, Y2_Price_growth = NaN, Y3_Price_growth = NaN\<rparr>,
     \<lparr>Ticker = ''A'', ReportDate = 18808, OCF = Fin 5, CAPEX = Fin (- 1), FCF = Fin 4, Shares = Fin 2, Revenue = Fin 10, NetIncome = Fin 1, FCF_per_share = Fin 2, Yo6M_FCFps_growth = NaN, Y1_FCFps_growth = NaN, Y2_FCFps_growth = NaN, Y3_FCFps_growth = NaN, TradeDate = Some 18808, Price = Fin 20, Market_Cap = Fin 40, M6_Price_growth = NaN, Y1_Price_growth = NaN, Y2_Price_growth = NaN, Y3_Price_growth = NaN\<rparr>,
     \<lparr>Ticker = ''A'', ReportDate = 18900, OCF = Fin 3, CAPEX = Fin (- 1), FCF = Fin 2, Shares = Fin 2, Revenue = Fin 10, NetIncome = Fin 1, FCF_per_share = Fin 1, Yo6M_FCFps_growth = PInf, Y1_FCFps_growth = NaN, Y2_FCFps_growth = NaN, Y3_FCFps_growth = NaN, TradeDate = Some 18902, Price = Fin 30, Market_Cap = Fin 60, M6_Price_growth = Fin 2, Y1_Price_growth = NaN, Y2_Price_growth = NaN, Y3_Price_growth = NaN\<rparr>]"

definition ex_merged_all :: "merged_row list" where
  "ex_merged_all =
    [\<lparr>Ticker = ''A'', ReportDate = 18717, OCF = Fin 1, CAPEX = Fin (- 1), FCF = Fin 0, Shares = Fin 2, Revenue = Fin 10, NetIncome = Fin 1, FCF_per_share = Fin 0, Yo6M_FCFps_growth = NaN, Y1_FCFps_growth = NaN, Y2_FCFps_growth = NaN, Y3_FCFps_growth = NaN, TradeDate = Some 18718, Price = Fin 10\<rparr>,
     \<lparr>Ticker = ''A'', ReportDate = 18808, OCF = Fin 5, CAPEX = Fin (- 1), FCF = Fin 4, Shares = Fin 2, Revenue = Fin 10, NetIncome = Fin 1, FCF_per_share = Fin 2, Yo6M_FCFps_growth = NaN, Y1_FCFps_growth = NaN, Y2_FCFps_growth = NaN, Y3_FCFps_growth = NaN, TradeDate = Some 18808, Price = Fin 20\<rparr>,
     \<lparr>Ticker = ''A'', ReportDate = 18900, OCF = Fin 3, CAPEX = Fin (- 1), FCF = Fin 2, Shares = Fin 2, Revenue = Fin 10, NetIncome = Fin 1, FCF_per_share = Fin 1, Yo6M_FCFps_growth = PInf, Y1_FCFps_growth = NaN, Y2_FCFps_growth = NaN, Y3_FCFps_growth = NaN, TradeDate = Some 18902, Price = Fin 30\<rparr>,
     \<lparr>Ticker = ''A'', ReportDate = 18992, OCF = Fin 4, CAPEX = Fin (- 1), FCF = Fin 3, Shares = Fin 2, Revenue = Fin 10, NetIncome = Fin 1, FCF_per_share = Fin (3 / 2), Yo6M_FCFps_growth = Fin (- (1 / 4)), Y1_FCFps_growth = NaN, Y2_FCFps_growth = NaN, Y3_FCFps_growth = NaN, TradeDate = None, Price = NaN\<rparr>]"

text \<open>
  A second price series for the same fundamentals: the second quarter has no trade date in
  the week after its report date, the other three have one.
\<close>

definition ex_px_gap :: "px_row list" where
  "ex_px_gap =
    [\<lparr>px_Ticker = ''A'', px_TradeDate = 18718, px_Price = Fin 10\<rparr>,
     \<lparr>px_Ticker = ''A'', px_TradeDate = 18901, px_Price = Fin 30\<rparr>,
     \<lparr>px_Ticker = ''A'', px_TradeDate = 18993, px_Price = Fin 40\<rparr>]"

definition ex_gap_aligned :: "metrics_row list" where
  "ex_gap_aligned =
    [\<lparr>Ticker = ''A'', ReportDate = 18717, OCF = Fin 1, CAPEX = Fin (- 1), FCF = Fin 0, Shares = Fin 2, Revenue = Fin 10, NetIncome = Fin 1, FCF_per_share = Fin 0, Yo6M_FCFps_growth = NaN, Y1_FCFps_growth = NaN, Y2_FCFps_growth = NaN, Y3_FCFps_growth = NaN, TradeDate = Some 18718, Price = Fin 10, Market_Cap = Fin 20, M6_Price_growth = NaN, Y1_Price_growth = NaN, Y2_Price_growth = NaN, Y3_Price_growth = NaN\<rparr>,
     \<lparr>Ticker = ''A'', ReportDate = 18900, OCF = Fin 3, CAPEX = Fin (- 1), FCF = Fin 2, Shares = Fin 2, Revenue = Fin 10, NetIncome = Fin 1, FCF_per_share = Fin 1, Yo6M_FCFps_growth = PInf, Y1_FCFps_growth = NaN, Y2_FCFps_growth = NaN, Y3_FCFps_growth = NaN, TradeDate = Some 18901, Price = Fin 30, Market_Cap = Fin 60, M6_Price_growth = NaN, Y1_Price_growth = NaN, Y2_Price_growth = NaN, Y3_Price_growth = NaN\<rparr>,
     \<lparr>Ticker = ''A'', ReportDate = 18992, OCF = Fin 4, CAPEX = Fin (- 1), FCF = Fin 3, Shares = Fin 2, Revenue = Fin 10, NetIncome = Fin 1, FCF_per_share = Fin (3 / 2), Yo6M_FCFps_growth = Fin (- (1 / 4)), Y1_FCFps_growth = NaN, Y2_FCFps_growth = NaN, Y3_FCFps_growth = NaN, TradeDate = Some 18993, Price = Fin 40, Market_Cap = Fin 80, M6_Price_growth = Fin 3, Y1_Price_growth = NaN, Y2_Price_growth = NaN, Y3_Price_growth = NaN\<rparr>]"

section \<open>Auxiliary facts\<close>

lemmas row_defs =
  cf_sel.defs fund_m.defs fund_p.defs fund_row.defs merged_row.defs mcap_row.defs metrics_row.defs

lemma fdiv_NaN_right [simp]: "fdiv a NaN = NaN"
  by (cases a) simp_all

lemma fadd_NaN_right [simp]: "fadd a NaN = NaN"
  by (cases a) simp_all

lemma growth_NaN [simp]: "growth v NaN = NaN"
  by (simp add: growth_def)

lemma filter_nth_ex:
  "t < length (filter P xs) \<Longrightarrow>
   \<exists>i < length xs. xs ! i = filter P xs ! t \<and> filter P (take i xs) = take t (filter P xs)"
proof (induction xs arbitrary: t)
  case Nil
  then show ?case by simp
next
  case (Cons x xs)
  show ?case
  proof (cases "P x")
    case True
    show ?thesis
    proof (cases t)
      case 0
      then show ?thesis using True by (intro exI[of _ 0]) simp
    next
      case (Suc t')
      with Cons.prems True have "t' < length (filter P xs)" by simp
      from Cons.IH[OF this] obtain i where
        "i < length xs" "xs ! i = filter P xs ! t'" "filter P (take i xs) = take t' (filter P xs)"
        by blast
      then show ?thesis using True Suc by (intro exI[of _ "Suc i"]) simp
    qed
  next
    case False
    with Cons.prems have "t < length (filter P xs)" by simp
    from Cons.IH[OF this] obtain i where
      "i < length xs" "xs ! i = filter P xs ! t" "filter P (take i xs) = take t (filter P xs)"
      by blast
    then show ?thesis using False by (intro exI[of _ "Suc i"]) simp
  qed
qed

lemma shift_at_seq:
  assumes rows: "map h rows' = rows"
    and n: "0 < n"
    and t: "t < length (filter (\<lambda>r. key (h r) = k) rows')"
  shows "\<exists>i < length rows. rows' ! i = filter (\<lambda>r. key (h r) = k) rows' ! t \<and>
           shift_at key col n rows i =
             (if t < n then NaN else col (h (filter (\<lambda>r. key (h r) = k) rows' ! (t - n))))"
proof -
  let ?P = "\<lambda>r. key (h r) = k"
  let ?seq = "filter ?P rows'"
  from filter_nth_ex[OF t] obtain i where i: "i < length rows'" "rows' ! i = ?seq ! t"
    and pre: "filter ?P (take i rows') = take t ?seq"
    by blast
  have len: "length rows = length rows'" using rows by auto
  have "?seq ! t \<in> set ?seq" using t by (rule nth_mem)
  then have kt: "key (h (?seq ! t)) = k" by simp
  have ri: "rows ! i = h (rows' ! i)" using rows i(1) by auto
  have ki: "key (rows ! i) = k" using ri i(2) kt by simp
  have "filter (\<lambda>r. key r = k) (take i (map h rows')) = map h (filter ?P (take i rows'))"
    by (simp add: take_map filter_map comp_def)
  then have g: "filter (\<lambda>r. key r = key (rows ! i)) (take i rows) = map h (take t ?seq)"
    unfolding ki pre rows .
  have lg: "length (take t ?seq) = t" using t by simp
  have "shift_at key col n rows i = (if t < n then NaN else col (h (?seq ! (t - n))))"
    unfolding shift_at_def g using lg n t by (simp add: Let_def)
  with i len show ?thesis by auto
qed

lemma sorted_group:
  "sorted (map (\<lambda>r. (key r, d r)) xs) \<Longrightarrow> sorted (map d (filter (\<lambda>r. key r = k) xs))"
  by (induction xs) (auto simp: less_eq_prod_def)

lemma set_window:
  "set (filter in_window (merge_left_px keys px)) =
   {temp_of t d p | t d p. (t, d) \<in> set keys \<and> p \<in> set (candidates px t d)}"
  (is "?L = ?R")
proof
  show "?L \<subseteq> ?R"
    by (auto simp: merge_left_px_def in_window_def candidates_def temp_of_def Let_def split: if_splits)
  show "?R \<subseteq> ?L"
    by (fastforce simp: merge_left_px_def in_window_def candidates_def temp_of_def Let_def filter_empty_conv)
qed

lemma sorted_group3:
  "sorted (map (\<lambda>r. (a r, b r, c r)) xs) \<Longrightarrow>
   sorted (map c (filter (\<lambda>r. a r = t \<and> b r = d) xs))"
  by (induction xs) (auto simp: less_eq_prod_def)

lemma group_first_keys:
  "map (\<lambda>r. (t_Ticker r, t_RptDate r)) (group_first rows) =
   sort (remdups (map (\<lambda>r. (t_Ticker r, t_RptDate r)) rows))"
  by (simp add: group_first_def comp_def case_prod_beta Let_def)

lemma group_first_distinct:
  "distinct (map (\<lambda>r. (t_Ticker r, t_RptDate r)) (group_first rows))"
  by (simp add: group_first_keys)

lemma group_first_set:
  "r \<in> set (group_first rows) \<longleftrightarrow>
   (\<exists>x \<in> set rows.
      r = \<lparr>t_Ticker = t_Ticker x, t_RptDate = t_RptDate x,
           t_TradeDate = first_date (map t_TradeDate
              (filter (\<lambda>y. t_Ticker y = t_Ticker x \<and> t_RptDate y = t_RptDate x) rows)),
           t_Price = first_val (map t_Price
              (filter (\<lambda>y. t_Ticker y = t_Ticker x \<and> t_RptDate y = t_RptDate x) rows))\<rparr>)"
  by (auto simp: group_first_def Let_def image_iff)

lemma first_date_sorted:
  assumes "g \<noteq> []" and "\<forall>r \<in> set g. c r \<noteq> None" and "sorted (map c g)"
  shows "first_date (map c g) = c (hd g) \<and> (\<forall>r \<in> set g. c (hd g) \<le> c r)"
  using assms by (cases g) (auto simp: first_date_def)

lemma first_val_cases:
  "(first_val vs = NaN \<and> (\<forall>v \<in> set vs. v = NaN)) \<or>
   (\<exists>i < length vs. vs ! i = first_val vs \<and> vs ! i \<noteq> NaN \<and> (\<forall>j < i. vs ! j = NaN))"
proof (induction vs)
  case Nil
  then show ?case by (simp add: first_val_def)
next
  case (Cons v vs)
  show ?case
  proof (cases "v = NaN")
    case True
    then have fv: "first_val (v # vs) = first_val vs" by (simp add: first_val_def)
    from Cons show ?thesis
    proof
      assume "first_val vs = NaN \<and> (\<forall>v \<in> set vs. v = NaN)"
      then show ?thesis using True fv by simp
    next
      assume "\<exists>i < length vs. vs ! i = first_val vs \<and> vs ! i \<noteq> NaN \<and> (\<forall>j < i. vs ! j = NaN)"
      then obtain i where i: "i < length vs" "vs ! i = first_val vs" "vs ! i \<noteq> NaN" "\<forall>j < i. vs ! j = NaN"
        by blast
      have "\<forall>j < Suc i. (v # vs) ! j = NaN"
        using i(4) True by (auto simp: nth_Cons split: nat.splits)
      then have "Suc i < length (v # vs) \<and> (v # vs) ! Suc i = first_val (v # vs) \<and> (v # vs) ! Suc i \<noteq> NaN
                 \<and> (\<forall>j < Suc i. (v # vs) ! j = NaN)"
        using i fv by simp
      then show ?thesis by blast
    qed
  next
    case False
    then have "first_val (v # vs) = v" by (simp add: first_val_def)
    then have "0 < length (v # vs) \<and> (v # vs) ! 0 = first_val (v # vs) \<and> (v # vs) ! 0 \<noteq> NaN
               \<and> (\<forall>j < 0. (v # vs) ! j = NaN)"
      using False by simp
    then show ?thesis by blast
  qed
qed

lemma temp_sorted_group:
  fixes px :: "px_row list" and fund :: "fund_row list"
  assumes f: "f \<in> set fund"
  defines "g \<equiv> filter (\<lambda>y. t_Ticker y = Ticker f \<and> t_RptDate y = ReportDate f) (temp_sorted fund px)"
  shows "set g = temp_of (Ticker f) (ReportDate f) ` set (candidates px (Ticker f) (ReportDate f))"
    and "sorted (map t_TradeDate g)"
proof -
  have "(Ticker f, ReportDate f) \<in> set (map (\<lambda>f. (Ticker f, ReportDate f)) fund)"
    using f by (simp add: image_iff) blast
  moreover have "set (temp_sorted fund px) =
      {temp_of t d p | t d p. (t, d) \<in> set (map (\<lambda>f. (Ticker f, ReportDate f)) fund)
                               \<and> p \<in> set (candidates px t d)}"
    by (simp only: temp_sorted_def set_sort set_window)
  moreover have "set g = {y \<in> set (temp_sorted fund px). t_Ticker y = Ticker f \<and> t_RptDate y = ReportDate f}"
    by (simp add: g_def)
  ultimately show "set g = temp_of (Ticker f) (ReportDate f) ` set (candidates px (Ticker f) (ReportDate f))"
    by (auto simp: temp_of_def)
  show "sorted (map t_TradeDate g)"
    unfolding g_def temp_sorted_def by (rule sorted_group3) (rule sorted_sort_key)
qed

lemma temp_sorted_key:
  "x \<in> set (temp_sorted fund px) \<Longrightarrow> \<exists>f \<in> set fund. t_Ticker x = Ticker f \<and> t_RptDate x = ReportDate f"
  unfolding temp_sorted_def set_sort set_window by (auto simp: temp_of_def)

lemma group_choice:
  assumes set_g: "set g = temp_of t d ` set C"
    and srt: "sorted (map t_TradeDate g)"
    and ne: "g \<noteq> []"
  shows "first_date (map t_TradeDate g) = Some (Min (px_TradeDate ` set C))"
    and "first_priced C (first_val (map t_Price g))"
proof -
  have nn: "\<forall>r \<in> set g. t_TradeDate r \<noteq> None" using set_g by (auto simp: temp_of_def)
  from first_date_sorted[OF ne nn srt]
  have fd: "first_date (map t_TradeDate g) = t_TradeDate (hd g)"
    and least: "\<forall>r \<in> set g. t_TradeDate (hd g) \<le> t_TradeDate r" by simp_all
  have "hd g \<in> set g" using ne by simp
  then obtain p0 where p0: "p0 \<in> set C" "hd g = temp_of t d p0" using set_g by auto
  have "\<forall>p \<in> set C. px_TradeDate p0 \<le> px_TradeDate p"
  proof
    fix p assume "p \<in> set C"
    then have "temp_of t d p \<in> set g" using set_g by simp
    with least have "t_TradeDate (hd g) \<le> t_TradeDate (temp_of t d p)" by simp
    then show "px_TradeDate p0 \<le> px_TradeDate p" using p0(2) by (simp add: temp_of_def)
  qed
  then have "Min (px_TradeDate ` set C) = px_TradeDate p0"
    using p0(1) by (intro Min_eqI) auto
  then show "first_date (map t_TradeDate g) = Some (Min (px_TradeDate ` set C))"
    using fd p0(2) by (simp add: temp_of_def)
  let ?vs = "map t_Price g"
  from first_val_cases[of ?vs] show "first_priced C (first_val ?vs)"
  proof
    assume a: "first_val ?vs = NaN \<and> (\<forall>v \<in> set ?vs. v = NaN)"
    have "\<forall>p \<in> set C. px_Price p = NaN"
    proof
      fix p assume "p \<in> set C"
      then have "temp_of t d p \<in> set g" using set_g by simp
      moreover from a have "\<forall>r \<in> set g. t_Price r = NaN" by simp
      ultimately have "t_Price (temp_of t d p) = NaN" by blast
      then show "px_Price p = NaN" by (simp add: temp_of_def)
    qed
    with a show ?thesis by (simp add: first_priced_def)
  next
    assume "\<exists>i < length ?vs. ?vs ! i = first_val ?vs \<and> ?vs ! i \<noteq> NaN \<and> (\<forall>j < i. ?vs ! j = NaN)"
    then obtain i where i: "i < length g" "t_Price (g ! i) = first_val ?vs" "t_Price (g ! i) \<noteq> NaN"
      and before: "\<forall>j < i. t_Price (g ! j) = NaN"
      by auto
    have "g ! i \<in> set g" using i(1) by simp
    then obtain p where p: "p \<in> set C" "g ! i = temp_of t d p" using set_g by auto
    have "\<forall>q \<in> set C. px_TradeDate q < px_TradeDate p \<longrightarrow> px_Price q = NaN"
    proof (intro ballI impI)
      fix q assume q: "q \<in> set C" "px_TradeDate q < px_TradeDate p"
      then have "temp_of t d q \<in> set g" using set_g by simp
      then obtain j where j: "j < length g" "g ! j = temp_of t d q" by (auto simp: in_set_conv_nth)
      have "j < i"
      proof (rule ccontr)
        assume "\<not> j < i"
        then have "i \<le> j" by simp
        with srt j(1) have "map t_TradeDate g ! i \<le> map t_TradeDate g ! j"
          by (intro sorted_nth_mono) simp_all
        then have "px_TradeDate p \<le> px_TradeDate q"
          using i(1) j p(2) by (simp add: temp_of_def)
        with q(2) show False by simp
      qed
      with before have "t_Price (g ! j) = NaN" by simp
      then show "px_Price q = NaN" using j(2) by (simp add: temp_of_def)
    qed
    moreover have "px_Price p = first_val ?vs" "px_Price p \<noteq> NaN"
      using i p(2) by (simp_all add: temp_of_def)
    ultimately show ?thesis using p(1) unfolding first_priced_def
      by (intro disjI2 bexI[of _ p]) simp_all
  qed
qed

lemma temp_eq: "temp fund px = group_first (temp_sorted fund px)"
  by (simp add: temp_def temp_sorted_def)

lemma temp_row_char:
  assumes "r \<in> set (temp fund px)"
  shows "\<exists>f \<in> set fund. t_Ticker r = Ticker f \<and> t_RptDate r = ReportDate f \<and>
           candidates px (Ticker f) (ReportDate f) \<noteq> [] \<and>
           t_TradeDate r = Some (Min (px_TradeDate ` set (candidates px (Ticker f) (ReportDate f)))) \<and>
           first_priced (candidates px (Ticker f) (ReportDate f)) (t_Price r)"
proof -
  let ?S = "temp_sorted fund px"
  from assms obtain x where x: "x \<in> set ?S"
    and r: "r = \<lparr>t_Ticker = t_Ticker x, t_RptDate = t_RptDate x,
           t_TradeDate = first_date (map t_TradeDate
              (filter (\<lambda>y. t_Ticker y = t_Ticker x \<and> t_RptDate y = t_RptDate x) ?S)),
           t_Price = first_val (map t_Price
              (filter (\<lambda>y. t_Ticker y = t_Ticker x \<and> t_RptDate y = t_RptDate x) ?S))\<rparr>"
    unfolding temp_eq group_first_set by blast
  from temp_sorted_key[OF x] obtain f where f: "f \<in> set fund" "t_Ticker x = Ticker f" "t_RptDate x = ReportDate f"
    by blast
  let ?g = "filter (\<lambda>y. t_Ticker y = Ticker f \<and> t_RptDate y = ReportDate f) ?S"
  let ?C = "candidates px (Ticker f) (ReportDate f)"
  have xg: "x \<in> set ?g" using x f by simp
  then have ne: "?g \<noteq> []" by (auto simp: filter_empty_conv)
  note grp = temp_sorted_group[OF f(1), of px]
  have "?C \<noteq> []" using grp(1) ne by auto
  moreover note group_choice[OF grp(1) grp(2) ne]
  ultimately show ?thesis using f r by auto
qed

lemma temp_has_row:
  assumes f: "f \<in> set fund" and C: "candidates px (Ticker f) (ReportDate f) \<noteq> []"
  shows "\<exists>r \<in> set (temp fund px). t_Ticker r = Ticker f \<and> t_RptDate r = ReportDate f"
proof -
  from C obtain p where "p \<in> set (candidates px (Ticker f) (ReportDate f))"
    by (cases "candidates px (Ticker f) (ReportDate f)") auto
  then have "temp_of (Ticker f) (ReportDate f) p \<in>
      set (filter (\<lambda>y. t_Ticker y = Ticker f \<and> t_RptDate y = ReportDate f) (temp_sorted fund px))"
    using temp_sorted_group(1)[OF f, of px] by blast
  then have "temp_of (Ticker f) (ReportDate f) p \<in> set (temp_sorted fund px)"
    by simp
  then have "(Ticker f, ReportDate f) \<in> set (map (\<lambda>r. (t_Ticker r, t_RptDate r)) (temp_sorted fund px))"
    by (force simp: temp_of_def image_iff)
  then have "(Ticker f, ReportDate f) \<in> set (map (\<lambda>r. (t_Ticker r, t_RptDate r)) (temp fund px))"
    unfolding temp_eq group_first_keys by simp
  then show ?thesis by auto
qed

lemma temp_distinct:
  "distinct (map (\<lambda>r. (t_Ticker r, t_RptDate r)) (temp fund px))"
  unfolding temp_eq by (rule group_first_distinct)

lemma filter_find_distinct:
  "distinct (map key xs) \<Longrightarrow>
   filter (\<lambda>y. key y = k) xs = (case List.find (\<lambda>y. key y = k) xs of None \<Rightarrow> [] | Some r \<Rightarrow> [r])"
proof (induction xs)
  case Nil
  then show ?case by simp
next
  case (Cons a xs)
  show ?case
  proof (cases "key a = k")
    case True
    with Cons.prems have "\<forall>x \<in> set xs. key x \<noteq> k" by (auto simp: image_iff)
    then have "filter (\<lambda>y. key y = k) xs = []" by (simp add: filter_empty_conv)
    with True show ?thesis by simp
  next
    case False
    with Cons show ?thesis by simp
  qed
qed

lemma merge_back_map:
  assumes "distinct (map (\<lambda>r. (t_Ticker r, t_RptDate r)) tmp)"
  shows "merge_back fund tmp = map (price_match tmp) fund"
proof -
  have "filter (\<lambda>r. t_Ticker r = Ticker f \<and> t_RptDate r = ReportDate f) tmp =
         (case List.find (\<lambda>r. t_Ticker r = Ticker f \<and> t_RptDate r = ReportDate f) tmp of
            None \<Rightarrow> [] | Some r \<Rightarrow> [r])" for f :: fund_row
    using filter_find_distinct[OF assms, of "(Ticker f, ReportDate f)"] by simp
  then have "
      (let ms = filter (\<lambda>r. t_Ticker r = Ticker f \<and> t_RptDate r = ReportDate f) tmp
       in if ms = [] then [fund_row.extend f (merged_row.fields None NaN)]
          else map (\<lambda>r. fund_row.extend f (merged_row.fields (t_TradeDate r) (t_Price r))) ms)
      = [price_match tmp f]" for f :: fund_row
    by (simp add: price_match_def Let_def split: option.splits)
  then show ?thesis by (simp add: merge_back_def)
qed

lemma price_match_fund [simp]:
  "fund_row.truncate (price_match tmp f) = f"
  "Ticker (price_match tmp f) = Ticker f"
  "ReportDate (price_match tmp f) = ReportDate f"
  "Shares (price_match tmp f) = Shares f"
  by (simp_all add: price_match_def row_defs split: option.splits)

lemma candidates_prices [simp]:
  "set (candidates (prices px) t d) = set (candidates px t d)"
  by (simp add: candidates_def prices_def)

lemma first_priced_cong:
  "set C = set C' \<Longrightarrow> first_priced C v = first_priced C' v"
  by (simp add: first_priced_def)

lemma price_match_char:
  fixes px :: "px_row list" and fund :: "fund_row list"
  assumes f: "f \<in> set fund"
  defines "m \<equiv> price_match (temp fund (prices px)) f"
    and "C \<equiv> candidates px (Ticker f) (ReportDate f)"
  shows "C = [] \<longrightarrow> TradeDate m = None \<and> Price m = NaN"
    and "C \<noteq> [] \<longrightarrow> TradeDate m = Some (Min (px_TradeDate ` set C)) \<and> first_priced C (Price m)"
proof -
  let ?tmp = "temp fund (prices px)"
  let ?C' = "candidates (prices px) (Ticker f) (ReportDate f)"
  have CC: "set ?C' = set C" by (simp add: C_def)
  then have CC_empty: "?C' = [] \<longleftrightarrow> C = []" by (metis set_empty)
  show "C = [] \<longrightarrow> TradeDate m = None \<and> Price m = NaN"
  proof
    assume "C = []"
    have "List.find (\<lambda>r. t_Ticker r = Ticker f \<and> t_RptDate r = ReportDate f) ?tmp = None"
    proof (rule ccontr)
      assume "List.find (\<lambda>r. t_Ticker r = Ticker f \<and> t_RptDate r = ReportDate f) ?tmp \<noteq> None"
      then obtain r where "r \<in> set ?tmp" "t_Ticker r = Ticker f" "t_RptDate r = ReportDate f"
        by (auto simp: find_None_iff)
      with temp_row_char[of r fund "prices px"] have "?C' \<noteq> []" by auto
      with CC_empty \<open>C = []\<close> show False by simp
    qed
    then show "TradeDate m = None \<and> Price m = NaN"
      by (simp add: m_def price_match_def row_defs)
  qed
  show "C \<noteq> [] \<longrightarrow> TradeDate m = Some (Min (px_TradeDate ` set C)) \<and> first_priced C (Price m)"
  proof
    assume "C \<noteq> []"
    then have "?C' \<noteq> []" using CC_empty by simp
    from temp_has_row[OF f this] obtain r0 where
      "r0 \<in> set ?tmp" "t_Ticker r0 = Ticker f" "t_RptDate r0 = ReportDate f" by blast
    then obtain r where r: "List.find (\<lambda>r. t_Ticker r = Ticker f \<and> t_RptDate r = ReportDate f) ?tmp = Some r"
      by (cases "List.find (\<lambda>r. t_Ticker r = Ticker f \<and> t_RptDate r = ReportDate f) ?tmp")
         (auto simp: find_None_iff)
    then have rk: "r \<in> set ?tmp" "t_Ticker r = Ticker f" "t_RptDate r = ReportDate f"
      by (auto simp: find_Some_iff)
    from temp_row_char[OF rk(1)] rk(2,3)
    have "t_TradeDate r = Some (Min (px_TradeDate ` set ?C'))" "first_priced ?C' (t_Price r)"
      by auto
    then have "t_TradeDate r = Some (Min (px_TradeDate ` set C))" "first_priced C (t_Price r)"
      using CC first_priced_cong[OF CC] by simp_all
    then show "TradeDate m = Some (Min (px_TradeDate ` set C)) \<and> first_priced C (Price m)"
      using r by (simp add: m_def price_match_def row_defs)
  qed
qed

lemma merged_eq:
  "merged fund px = filter (\<lambda>m. Price m \<noteq> NaN) (map (price_match (temp fund (prices px))) fund)"
  by (simp add: merged_def dropna_Price_def isna_def merge_back_map[OF temp_distinct])

lemma group_shift_nth:
  "i < length rows \<Longrightarrow> group_shift key col n rows ! i = shift_at key col n rows i"
  by (simp add: group_shift_def)


lemma add_FCFps_growth_truncate:
  "map fund_p.truncate (add_FCFps_growth rows) = rows"
  by (rule nth_equalityI) (simp_all add: add_FCFps_growth_def Let_def row_defs)



lemma add_FCFps_growth_keys:
  "map (\<lambda>r. (Ticker r, ReportDate r)) (add_FCFps_growth rows) = map (\<lambda>r. (Ticker r, ReportDate r)) rows"
proof -
  have "map (\<lambda>r. (Ticker r, ReportDate r)) (map fund_p.truncate (add_FCFps_growth rows)) =
        map (\<lambda>r. (Ticker r, ReportDate r)) (add_FCFps_growth rows)"
    by (simp add: row_defs comp_def)
  then show ?thesis by (simp add: add_FCFps_growth_truncate)
qed

lemma fundamentals_sorted:
  "sorted (map (\<lambda>r. (Ticker r, ReportDate r)) (fundamentals capex cf inc))"
  unfolding fundamentals_def add_FCFps_growth_keys fund_sorted_def by (rule sorted_sort_key)

lemma add_Price_growth_length [simp]:
  "length (add_Price_growth rows) = length rows"
  by (simp add: add_Price_growth_def)

lemma add_Price_growth_truncate:
  "map mcap_row.truncate (add_Price_growth rows) = rows"
  by (rule nth_equalityI) (simp_all add: add_Price_growth_def Let_def row_defs)

lemma add_Price_growth_col:
  assumes "i < length rows" and "L \<in> {2, 4, 8, 12}"
  shows "Price_growth_col L (add_Price_growth rows ! i) =
         growth (Price (rows ! i)) (shift_at Ticker Price L rows i)"
  using assms
  by (auto simp: add_Price_growth_def Price_growth_col_def Let_def row_defs group_shift_nth)

lemma Price_growth_seq:
  assumes L: "L \<in> {2, 4, 8, 12}"
    and t: "t < length (filter (\<lambda>r. Ticker r = T) (add_Price_growth rows))"
  shows "Price_growth_col L (filter (\<lambda>r. Ticker r = T) (add_Price_growth rows) ! t) =
         (if t < L then NaN
          else growth (Price (filter (\<lambda>r. Ticker r = T) (add_Price_growth rows) ! t))
                      (Price (filter (\<lambda>r. Ticker r = T) (add_Price_growth rows) ! (t - L))))"
proof -
  let ?rows' = "add_Price_growth rows"
  let ?seq = "filter (\<lambda>r. Ticker r = T) ?rows'"
  have P: "(\<lambda>r :: metrics_row. Ticker (mcap_row.truncate r) = T) = (\<lambda>r. Ticker r = T)"
    by (simp add: row_defs)
  have n: "0 < L" using L by auto
  from shift_at_seq[OF add_Price_growth_truncate n, of t Ticker T rows Price] t
  obtain i where i: "i < length rows" "?rows' ! i = ?seq ! t"
    and sh: "shift_at Ticker Price L rows i =
             (if t < L then NaN else Price (mcap_row.truncate (?seq ! (t - L))))"
    unfolding P by blast
  have "rows ! i = mcap_row.truncate (?rows' ! i)"
    using i(1) add_Price_growth_truncate[of rows] by (metis nth_map add_Price_growth_length)
  then have v: "Price (rows ! i) = Price (?seq ! t)"
    using i(2) by (simp add: row_defs)
  have "Price_growth_col L (?seq ! t) = growth (Price (rows ! i)) (shift_at Ticker Price L rows i)"
    using add_Price_growth_col[OF i(1) L] i(2) by simp
  then show ?thesis unfolding sh v by (simp add: row_defs)
qed

lemma metrics_merged:
  "map merged_row.truncate (metrics rows) = rows"
proof -
  have "map merged_row.truncate (map mcap_row.truncate (add_Price_growth (add_Market_Cap rows))) =
        map merged_row.truncate (add_Price_growth (add_Market_Cap rows))"
    by (simp add: row_defs comp_def)
  moreover have "map merged_row.truncate (add_Market_Cap rows) = rows"
    by (rule nth_equalityI) (simp_all add: add_Market_Cap_def row_defs)
  ultimately show ?thesis by (simp add: metrics_def add_Price_growth_truncate)
qed

lemma metrics_Market_Cap:
  "m \<in> set (metrics rows) \<Longrightarrow> Market_Cap m = fmul (Price m) (Shares m)"
proof -
  assume "m \<in> set (metrics rows)"
  then have "mcap_row.truncate m \<in> set (map mcap_row.truncate (metrics rows))" by simp
  then have "mcap_row.truncate m \<in> set (add_Market_Cap rows)"
    by (simp add: metrics_def add_Price_growth_truncate)
  then obtain r where "mcap_row.truncate m = merged_row.extend r (mcap_row.fields (fmul (Price r) (Shares r)))"
    by (auto simp: add_Market_Cap_def)
  then have "Market_Cap (mcap_row.truncate m) =
             fmul (Price (mcap_row.truncate m)) (Shares (mcap_row.truncate m))"
    by (simp add: row_defs)
  then show ?thesis by (simp add: row_defs)
qed

lemma metrics_length [simp]: "length (metrics rows) = length rows"
  by (simp add: metrics_def add_Market_Cap_def)

lemma merged_keys_sorted:
  assumes "sorted (map (\<lambda>r. (Ticker r, ReportDate r)) fund)"
  shows "sorted (map (\<lambda>r. (Ticker r, ReportDate r)) (merged fund px))"
proof -
  have eq: "map (\<lambda>r. (Ticker r, ReportDate r)) (map (price_match (temp fund (prices px))) fund) =
        map (\<lambda>r. (Ticker r, ReportDate r)) fund"
    by (simp add: comp_def)
  show ?thesis unfolding merged_eq by (rule sorted_filter) (simp only: eq assms)
qed

lemma aligned_sorted:
  "sorted (map (\<lambda>r. (Ticker r, ReportDate r)) (aligned capex cf inc px))"
proof -
  let ?m = "merged (fundamentals capex cf inc) px"
  have "map (\<lambda>r. (Ticker r, ReportDate r)) (map merged_row.truncate (metrics ?m)) =
        map (\<lambda>r. (Ticker r, ReportDate r)) (metrics ?m)"
    by (simp add: row_defs comp_def)
  then have "map (\<lambda>r. (Ticker r, ReportDate r)) (metrics ?m) = map (\<lambda>r. (Ticker r, ReportDate r)) ?m"
    by (simp add: metrics_merged)
  then show ?thesis
    unfolding aligned_def using merged_keys_sorted[OF fundamentals_sorted] by simp
qed

lemma merged_row_char:
  fixes px :: "px_row list" and fund :: "fund_row list"
  assumes "m \<in> set (merged fund px)"
  defines "C \<equiv> candidates px (Ticker m) (ReportDate m)"
  shows "fund_row.truncate m \<in> set fund"
    and "Price m \<noteq> NaN"
    and "C \<noteq> []"
    and "TradeDate m = Some (Min (px_TradeDate ` set C))"
    and "first_priced C (Price m)"
proof -
  from assms(1) obtain f where f: "f \<in> set fund" "m = price_match (temp fund (prices px)) f"
    and p: "Price m \<noteq> NaN"
    unfolding merged_eq by auto
  have C: "C = candidates px (Ticker f) (ReportDate f)" using f(2) by (simp add: C_def)
  show "fund_row.truncate m \<in> set fund" using f by simp
  show "Price m \<noteq> NaN" by (rule p)
  from price_match_char(1)[OF f(1), of px] p f(2) C show ne: "C \<noteq> []" by auto
  from price_match_char(2)[OF f(1), of px] ne f(2) C
  show "TradeDate m = Some (Min (px_TradeDate ` set C))" "first_priced C (Price m)" by auto
qed

lemma fund_sorted_row:
  assumes "r \<in> set (fund_sorted capex cf inc)"
  shows "\<exists>c \<in> set cf. \<exists>i \<in> set inc.
           cf_Ticker c = Ticker r \<and> cf_ReportDate c = ReportDate r \<and>
           inc_Ticker i = Ticker r \<and> inc_ReportDate i = ReportDate r \<and>
           START_YEAR \<le> year_of (ReportDate r) \<and>
           OCF r = cf_cell c ''Net Cash from Operating Activities'' \<and>
           CAPEX r = cf_cell c capex \<and>
           FCF r = fadd (OCF r) (CAPEX r) \<and>
           Shares r = inc_Shares i \<and> Revenue r = inc_Revenue i \<and> NetIncome r = inc_NetIncome i \<and>
           FCF_per_share r = fdiv (FCF r) (Shares r)"
proof -
  from assms obtain m where m: "m \<in> set (merge_inner (select_cf capex cf) inc)"
    "START_YEAR \<le> year_of (ReportDate m)"
    and r: "r = fund_m.extend m (fund_p.fields (fdiv (FCF m) (Shares m)))"
    unfolding fund_sorted_def add_FCF_per_share_def set_sort set_map set_filter by blast
  from m(1) obtain c' i where c': "c' \<in> set (select_cf capex cf)" and i: "i \<in> set inc"
    "inc_Ticker i = Ticker c'" "inc_ReportDate i = ReportDate c'"
    and m_eq: "m = cf_sel.extend c' (fund_m.fields (inc_Shares i) (inc_Revenue i) (inc_NetIncome i))"
    by (auto simp: merge_inner_def)
  from c' obtain c where c: "c \<in> set cf"
    and c'_eq: "c' = \<lparr>Ticker = cf_Ticker c, ReportDate = cf_ReportDate c,
               OCF = cf_cell c ''Net Cash from Operating Activities'',
               CAPEX = cf_cell c capex,
               FCF = fadd (cf_cell c ''Net Cash from Operating Activities'') (cf_cell c capex)\<rparr>"
    unfolding select_cf_def set_map by blast
  show ?thesis
    using i(2,3) m(2)
    by (intro bexI[OF _ c] bexI[OF _ i(1)]) (simp add: r m_eq c'_eq row_defs)
qed

lemma fund_sorted_has_key:
  assumes "c \<in> set cf" and "i \<in> set inc"
    and "inc_Ticker i = cf_Ticker c" and "inc_ReportDate i = cf_ReportDate c"
    and "START_YEAR \<le> year_of (cf_ReportDate c)"
  shows "\<exists>r \<in> set (fund_sorted capex cf inc). Ticker r = cf_Ticker c \<and> ReportDate r = cf_ReportDate c"
proof -
  let ?c = "\<lparr>Ticker = cf_Ticker c, ReportDate = cf_ReportDate c,
               OCF = cf_cell c ''Net Cash from Operating Activities'',
               CAPEX = cf_cell c capex,
               FCF = fadd (cf_cell c ''Net Cash from Operating Activities'') (cf_cell c capex)\<rparr>"
  let ?m = "cf_sel.extend ?c (fund_m.fields (inc_Shares i) (inc_Revenue i) (inc_NetIncome i))"
  let ?p = "fund_m.extend ?m (fund_p.fields (fdiv (FCF ?m) (Shares ?m)))"
  define g where "g = (\<lambda>c :: cf_sel. map (\<lambda>i. cf_sel.extend c
                                  (fund_m.fields (inc_Shares i) (inc_Revenue i) (inc_NetIncome i)))
                          (filter (\<lambda>i. inc_Ticker i = Ticker c \<and> inc_ReportDate i = ReportDate c)
                                  inc))"
  have c_in: "?c \<in> set (select_cf capex cf)" using assms(1) by (auto simp: select_cf_def)
  have "?m \<in> set (g ?c)" unfolding g_def using assms(2,3,4) by simp
  with c_in have "?m \<in> set (concat (map g (select_cf capex cf)))" by auto
  then have "?m \<in> set (merge_inner (select_cf capex cf) inc)"
    by (simp only: merge_inner_def g_def)
  moreover have "START_YEAR \<le> year_of (ReportDate ?m)" using assms(5) by (simp add: row_defs)
  ultimately have "?m \<in> set (filter (\<lambda>d. START_YEAR \<le> year_of (ReportDate d))
                  (merge_inner (select_cf capex cf) inc))" by simp
  then have "?p \<in> set (fund_sorted capex cf inc)"
    unfolding fund_sorted_def add_FCF_per_share_def set_sort set_map by (rule imageI)
  moreover have "Ticker ?p = cf_Ticker c \<and> ReportDate ?p = cf_ReportDate c" by (simp add: row_defs)
  ultimately show ?thesis by blast
qed

lemma fundamentals_set:
  "f \<in> set (fundamentals capex cf inc) \<Longrightarrow> fund_p.truncate f \<in> set (fund_sorted capex cf inc)"
proof -
  assume "f \<in> set (fundamentals capex cf inc)"
  then have "fund_p.truncate f \<in> set (map fund_p.truncate (add_FCFps_growth (fund_sorted capex cf inc)))"
    unfolding fundamentals_def by simp
  then show ?thesis by (simp only: add_FCFps_growth_truncate)
qed

lemma fundamentals_row:
  assumes "f \<in> set (fundamentals capex cf inc)"
  shows "\<exists>c \<in> set cf. \<exists>i \<in> set inc.
           cf_Ticker c = Ticker f \<and> cf_ReportDate c = ReportDate f \<and>
           inc_Ticker i = Ticker f \<and> inc_ReportDate i = ReportDate f \<and>
           START_YEAR \<le> year_of (ReportDate f) \<and>
           Shares f = inc_Shares i"
proof -
  from fund_sorted_row[OF fundamentals_set[OF assms]] obtain c i where
    "c \<in> set cf" "i \<in> set inc"
    "cf_Ticker c = Ticker (fund_p.truncate f)" "cf_ReportDate c = ReportDate (fund_p.truncate f)"
    "inc_Ticker i = Ticker (fund_p.truncate f)" "inc_ReportDate i = ReportDate (fund_p.truncate f)"
    "START_YEAR \<le> year_of (ReportDate (fund_p.truncate f))"
    "Shares (fund_p.truncate f) = inc_Shares i"
    by blast
  then show ?thesis
    by (intro bexI[of _ c] bexI[of _ i]) (simp_all add: row_defs)
qed

lemma fundamentals_keys:
  "(\<lambda>r. (Ticker r, ReportDate r)) ` set (fundamentals capex cf inc) =
   (\<lambda>r. (Ticker r, ReportDate r)) ` set (fund_sorted capex cf inc)"
proof -
  have "set (map (\<lambda>r. (Ticker r, ReportDate r)) (fundamentals capex cf inc)) =
        set (map (\<lambda>r. (Ticker r, ReportDate r)) (fund_sorted capex cf inc))"
    unfolding fundamentals_def add_FCFps_growth_keys ..
  then show ?thesis by simp
qed

lemma scripts_resolved:
  assumes "resolve cf = Inr capex"
  shows "build_fcf_dataset_simfin cf inc px = Inr (map select_final (aligned capex (cf_rows cf) inc px))"
    and "build_fcf_dataset cf inc px = Inr (map select_basic (aligned capex (cf_rows cf) inc px))"
  using assms by (simp_all add: build_fcf_dataset_simfin_def build_fcf_dataset_def)

lemma aligned_merged:
  assumes "m \<in> set (aligned capex cf inc px)"
  shows "merged_row.truncate m \<in> set (merged (fundamentals capex cf inc) px)"
proof -
  from assms have "merged_row.truncate m \<in>
      set (map merged_row.truncate (metrics (merged (fundamentals capex cf inc) px)))"
    unfolding aligned_def by simp
  then show ?thesis by (simp only: metrics_merged)
qed

lemma aligned_row_char:
  fixes px :: "px_row list"
  assumes "m \<in> set (aligned capex cf inc px)"
  defines "C \<equiv> candidates px (Ticker m) (ReportDate m)"
  shows "fund_row.truncate m \<in> set (fundamentals capex cf inc)"
    and "Price m \<noteq> NaN"
    and "C \<noteq> []"
    and "TradeDate m = Some (Min (px_TradeDate ` set C))"
    and "first_priced C (Price m)"
    and "Market_Cap m = fmul (Price m) (Shares m)"
proof -
  note mm = aligned_merged[OF assms(1)]
  have k: "Ticker (merged_row.truncate m) = Ticker m" "ReportDate (merged_row.truncate m) = ReportDate m"
    "Price (merged_row.truncate m) = Price m" "TradeDate (merged_row.truncate m) = TradeDate m"
    "fund_row.truncate (merged_row.truncate m) = fund_row.truncate m"
    by (simp_all add: row_defs)
  from merged_row_char[OF mm]
  show "fund_row.truncate m \<in> set (fundamentals capex cf inc)"
    and "Price m \<noteq> NaN"
    and "C \<noteq> []"
    and "TradeDate m = Some (Min (px_TradeDate ` set C))"
    and "first_priced C (Price m)"
    unfolding k C_def by simp_all
  show "Market_Cap m = fmul (Price m) (Shares m)"
    using assms(1) unfolding aligned_def by (rule metrics_Market_Cap)
qed



lemma aligned_seq_sorted:
  "sorted (map ReportDate (filter (\<lambda>r. Ticker r = T) (aligned capex cf inc px)))"
  by (rule sorted_group[OF aligned_sorted])



lemma first_priced_earliest:
  assumes fp: "first_priced C v" and ne: "C \<noteq> []"
    and nn: "\<forall>p \<in> set C. px_TradeDate p = Min (px_TradeDate ` set C) \<longrightarrow> \<not> isna (px_Price p)"
  shows "\<exists>p \<in> set C. px_TradeDate p = Min (px_TradeDate ` set C) \<and> v = px_Price p"
proof -
  from ne have "Min (px_TradeDate ` set C) \<in> px_TradeDate ` set C"
    by (intro Min_in) simp_all
  then obtain q where q: "q \<in> set C" "px_TradeDate q = Min (px_TradeDate ` set C)" by auto
  with nn have qn: "px_Price q \<noteq> NaN" by (simp add: isna_def)
  from fp q(1) qn obtain p where p: "p \<in> set C" "px_Price p = v"
    and before: "\<forall>r \<in> set C. px_TradeDate r < px_TradeDate p \<longrightarrow> px_Price r = NaN"
    unfolding first_priced_def by blast
  have "Min (px_TradeDate ` set C) \<le> px_TradeDate p" using p(1) by simp
  moreover have "\<not> px_TradeDate q < px_TradeDate p" using before q(1) qn by blast
  ultimately have "px_TradeDate p = Min (px_TradeDate ` set C)" using q(2) by simp
  with p show ?thesis by blast
qed

lemma aligned_seq_periods:
  fixes px :: "px_row list" and cf :: "cf_row list" and inc :: "inc_row list" and capex :: string
  defines "R \<equiv> (\<lambda>f. Price (price_match (temp (fundamentals capex cf inc) (prices px)) f) \<noteq> NaN)"
  shows "map fund_row.truncate (filter (\<lambda>r. Ticker r = T) (aligned capex cf inc px)) =
         filter R (filter (\<lambda>r. Ticker r = T) (fundamentals capex cf inc))"
proof -
  let ?fund = "fundamentals capex cf inc"
  let ?pm = "price_match (temp ?fund (prices px))"
  let ?al = "aligned capex cf inc px"
  have a: "map fund_row.truncate ?al = map fund_row.truncate (map merged_row.truncate ?al)"
    by (simp add: row_defs comp_def)
  have b: "map merged_row.truncate ?al = filter (\<lambda>m. Price m \<noteq> NaN) (map ?pm ?fund)"
    by (simp only: aligned_def metrics_merged merged_eq)
  have c: "map fund_row.truncate (filter (\<lambda>m. Price m \<noteq> NaN) (map ?pm ?fund)) = filter R ?fund"
    by (simp add: filter_map comp_def R_def)
  have d: "map fund_row.truncate ?al = filter R ?fund"
    unfolding a b c ..
  have "map fund_row.truncate (filter (\<lambda>r. Ticker r = T) ?al) =
        filter (\<lambda>r. Ticker r = T) (map fund_row.truncate ?al)"
    by (simp add: filter_map comp_def row_defs)
  also have "\<dots> = filter (\<lambda>r. Ticker r = T) (filter R ?fund)" unfolding d ..
  also have "\<dots> = filter R (filter (\<lambda>r. Ticker r = T) ?fund)"
    by (simp add: conj_commute)
  finally show ?thesis .
qed

lemma aligned_seq_position:
  fixes px :: "px_row list"
  assumes t: "t < length (filter (\<lambda>r. Ticker r = T) (aligned capex cf inc px))"
  shows "\<exists>t'. t \<le> t' \<and> t' < length (filter (\<lambda>r. Ticker r = T) (fundamentals capex cf inc)) \<and>
           filter (\<lambda>r. Ticker r = T) (fundamentals capex cf inc) ! t' =
           fund_row.truncate (filter (\<lambda>r. Ticker r = T) (aligned capex cf inc px) ! t)"
proof -
  let ?fseq = "filter (\<lambda>r. Ticker r = T) (fundamentals capex cf inc)"
  let ?seq = "filter (\<lambda>r. Ticker r = T) (aligned capex cf inc px)"
  let ?R = "\<lambda>f. Price (price_match (temp (fundamentals capex cf inc) (prices px)) f) \<noteq> NaN"
  have eq: "map fund_row.truncate ?seq = filter ?R ?fseq" by (rule aligned_seq_periods)
  then have "length (filter ?R ?fseq) = length ?seq" by (metis length_map)
  with t have t': "t < length (filter ?R ?fseq)" by simp
  from filter_nth_ex[OF t'] obtain i where i: "i < length ?fseq" "?fseq ! i = filter ?R ?fseq ! t"
    and pre: "filter ?R (take i ?fseq) = take t (filter ?R ?fseq)" by blast
  have "length (take t (filter ?R ?fseq)) = t" using t' by simp
  then have "t = length (filter ?R (take i ?fseq))" using pre by simp
  also have "\<dots> \<le> length (take i ?fseq)" by (rule length_filter_le)
  also have "\<dots> = i" using i(1) by simp
  finally have le: "t \<le> i" .
  have "filter ?R ?fseq ! t = map fund_row.truncate ?seq ! t" using eq by simp
  also have "\<dots> = fund_row.truncate (?seq ! t)" using t by simp
  finally have "?fseq ! i = fund_row.truncate (?seq ! t)" using i(2) by simp
  with le i(1) show ?thesis by blast
qed

section \<open>The example, evaluated\<close>

lemma ex_fundamentals: "fundamentals ''Capital Expenditures'' ex_cf ex_inc = ex_fund"
  by code_simp

lemma ex_aligned_eq: "aligned ''Capital Expenditures'' ex_cf ex_inc ex_px = ex_aligned"
  by code_simp

lemma ex_resolve: "resolve ex_frame = Inr ''Capital Expenditures''"
  by code_simp

lemma ex_rows: "cf_rows ex_frame = ex_cf"
  by (simp add: ex_frame_def)

lemma ex_aligned_mem:
  "ex_aligned ! 2 \<in> set (aligned ''Capital Expenditures'' (cf_rows ex_frame) ex_inc ex_px)"
  unfolding ex_rows ex_aligned_eq by (simp add: ex_aligned_def)

lemma ex_fund_mem:
  "ex_fund ! 3 \<in> set (fundamentals ''Capital Expenditures'' (cf_rows ex_frame) ex_inc)"
  unfolding ex_rows ex_fundamentals by (simp add: ex_fund_def)

lemma ex_unmatched:
  "\<not> (\<exists>p \<in> set ex_px. px_Ticker p = Ticker (ex_fund ! 3) \<and> ReportDate (ex_fund ! 3) \<le> px_TradeDate p
                           \<and> px_TradeDate p \<le> ReportDate (ex_fund ! 3) + 7)"
  by code_simp

lemma ex_merge_back: "merge_back ex_fund (temp ex_fund (prices ex_px)) = ex_merged_all"
  by code_simp

lemma ex_candidates:
  "candidates ex_px ''A'' 18900 =
     [\<lparr>px_Ticker = ''A'', px_TradeDate = 18902, px_Price = NaN\<rparr>,
      \<lparr>px_Ticker = ''A'', px_TradeDate = 18903, px_Price = Fin 30\<rparr>]"
  "candidates ex_px ''A'' 18992 = []"
  by code_simp+

lemma ex_merged_all_rows:
  "ex_merged_all ! 2 \<in> set ex_merged_all" "ex_merged_all ! 3 \<in> set ex_merged_all"
  "Ticker (ex_merged_all ! 2) = ''A''" "ReportDate (ex_merged_all ! 2) = 18900"
  "Ticker (ex_merged_all ! 3) = ''A''" "ReportDate (ex_merged_all ! 3) = 18992"
  "ex_merged_all ! 0 \<in> set ex_merged_all"
  "Ticker (ex_merged_all ! 0) = ''A''" "ReportDate (ex_merged_all ! 0) = 18717"
  by code_simp+

lemma ex_candidates_first:
  "candidates ex_px ''A'' 18717 \<noteq> []"
  "\<forall>p \<in> set (candidates ex_px ''A'' 18717).
     px_TradeDate p = Min (px_TradeDate ` set (candidates ex_px ''A'' 18717)) \<longrightarrow> \<not> isna (px_Price p)"
  by code_simp+

lemma ex_fund_seq:
  "filter (\<lambda>r. Ticker r = ''A'') (fundamentals ''Capital Expenditures'' ex_cf ex_inc) = ex_fund"
  unfolding ex_fundamentals by code_simp


lemma ex_gap_aligned_seq:
  "filter (\<lambda>r. Ticker r = ''A'') (aligned ''Capital Expenditures'' ex_cf ex_inc ex_px_gap) =
   ex_gap_aligned"
  by code_simp

lemma ex_gap_aligned_values:
  "length ex_gap_aligned = 3"
  "ReportDate (ex_gap_aligned ! 0) = 18717" "ReportDate (ex_gap_aligned ! 2) = 18992"
  by code_simp+

section \<open>The retry helper: properties\<close>

lemma retry_loop_5xx_prefix:
  assumes "i + k < MAX_RETRY"
    and "\<forall>j. i \<le> j \<and> j < i + k \<longrightarrow> (\<exists>s. func j = Throws (HTTPError (Some s)) \<and> 500 \<le> s \<and> s < 600)"
  shows "retry_loop func i sleeps =
         retry_loop func (i + k) (sleeps @ map (\<lambda>j. RETRY_DELAY * 2 ^ j) [i..<i + k])"
  using assms
proof (induction k arbitrary: i sleeps)
  case 0
  then show ?case by simp
next
  case (Suc k)
  have "i \<le> i \<and> i < i + Suc k" by simp
  with Suc.prems(2) obtain s where s: "func i = Throws (HTTPError (Some s))" "500 \<le> s" "s < 600"
    by blast
  have lt: "i < MAX_RETRY" "i \<noteq> MAX_RETRY - 1" using Suc.prems(1) by auto
  have step: "retry_loop func i sleeps = retry_loop func (i + 1) (sleeps @ [RETRY_DELAY * 2 ^ i])"
    using s lt by (subst retry_loop.simps) simp
  have "retry_loop func (i + 1) (sleeps @ [RETRY_DELAY * 2 ^ i]) =
        retry_loop func (i + 1 + k) ((sleeps @ [RETRY_DELAY * 2 ^ i]) @ map (\<lambda>j. RETRY_DELAY * 2 ^ j) [i + 1..<i + 1 + k])"
  proof (rule Suc.IH)
    show "i + 1 + k < MAX_RETRY" using Suc.prems(1) by simp
    show "\<forall>j. i + 1 \<le> j \<and> j < i + 1 + k \<longrightarrow> (\<exists>s. func j = Throws (HTTPError (Some s)) \<and> 500 \<le> s \<and> s < 600)"
      using Suc.prems(2) by simp
  qed
  moreover have "[i..<i + Suc k] = i # [i + 1..<i + 1 + k]"
    by (simp add: upt_conv_Cons)
  ultimately show ?case using step by simp
qed

text \<open>
  Claim C5.  Let the first \<open>k\<close> invocations (\<open>k\<close> below the attempt cap) fail with
  HTTP 5xx errors.  If invocation \<open>k\<close> returns a value, \<open>retry\<close> returns that value; if
  it fails with an HTTP error that is not 5xx, that error propagates at once; if it is the
  last permitted attempt and fails with an HTTP error, that error is re-raised.  In each
  case the call was invoked \<open>k + 1\<close> times and the sleeps made were
  \<open>RETRY_DELAY * 2 ^ j\<close> for the failed attempts \<open>j = 0, ..., k - 1\<close>, in this order.
\<close>

theorem retry_contract:
  assumes "k < MAX_RETRY"
    and "\<forall>j<k. \<exists>s. func j = Throws (HTTPError (Some s)) \<and> 500 \<le> s \<and> s < 600"
  shows "(\<forall>v. func k = Value v \<longrightarrow>
            retry func = (Returned v, map (\<lambda>j. RETRY_DELAY * 2 ^ j) [0..<k], k + 1))
       \<and> (\<forall>s. func k = Throws (HTTPError (Some s)) \<and> \<not> (500 \<le> s \<and> s < 600) \<longrightarrow>
            retry func = (Raised (HTTPError (Some s)), map (\<lambda>j. RETRY_DELAY * 2 ^ j) [0..<k], k + 1))
       \<and> (\<forall>s. func k = Throws (HTTPError (Some s)) \<and> k = MAX_RETRY - 1 \<longrightarrow>
            retry func = (Raised (HTTPError (Some s)), map (\<lambda>j. RETRY_DELAY * 2 ^ j) [0..<k], MAX_RETRY))"
proof -
  have pre: "retry func = retry_loop func k (map (\<lambda>j. RETRY_DELAY * 2 ^ j) [0..<k])"
    unfolding retry_def using retry_loop_5xx_prefix[of 0 k func "[]"] assms by simp
  show ?thesis
    unfolding pre using assms(1) by (subst retry_loop.simps, subst retry_loop.simps, subst retry_loop.simps) auto
qed

theorem retry_contract_witness:
  "retry (\<lambda>i. if i < 2 then Throws (HTTPError (Some 503)) else Value (7::nat)) = (Returned 7, [8, 16], 3)
   \<and> retry (\<lambda>i. if i < 1 then Throws (HTTPError (Some 500)) else (Throws (HTTPError (Some 404)) :: nat outcome))
       = (Raised (HTTPError (Some 404)), [8], 2)
   \<and> retry (\<lambda>i. (Throws (HTTPError (Some 502)) :: nat outcome))
       = (Raised (HTTPError (Some 502)), [8, 16, 32, 64], 5)"
  using retry_contract[of 2 "\<lambda>i. if i < 2 then Throws (HTTPError (Some 503)) else Value (7::nat)"]
        retry_contract[of 1 "\<lambda>i. if i < 1 then Throws (HTTPError (Some 500)) else (Throws (HTTPError (Some 404)) :: nat outcome)"]
        retry_contract[of 4 "\<lambda>i. (Throws (HTTPError (Some 502)) :: nat outcome)"]
  by (simp add: MAX_RETRY_def RETRY_DELAY_def upt_conv_Cons)

section \<open>CapEx column resolution\<close>

text \<open>
  Claim C6.  The CapEx column is the first name of \<open>CAPEX_CANDS\<close> that is a column of
  the cash-flow table; a table with \<open>Capital Expenditures\<close> and none of the three names
  before it resolves to \<open>Capital Expenditures\<close>; and each script ends with the
  CapEx-column error, producing no table, exactly when no candidate is a column.
\<close>

theorem capex_resolution:
  "(capex_col cols = None \<longleftrightarrow> (\<forall>c \<in> set CAPEX_CANDS. c \<notin> set cols))
   \<and> (\<forall>c. capex_col cols = Some c \<longleftrightarrow>
          (\<exists>i < length CAPEX_CANDS. CAPEX_CANDS ! i = c \<and> c \<in> set cols
              \<and> (\<forall>j < i. CAPEX_CANDS ! j \<notin> set cols)))
   \<and> (''Capital Expenditures'' \<in> set cols
        \<and> ''Change in Fixed Assets & Intangibles'' \<notin> set cols
        \<and> ''Purchase of PPE & Intangibles, net'' \<notin> set cols
        \<and> ''Capital Expenditures (Fixed Assets)'' \<notin> set cols
        \<longrightarrow> capex_col cols = Some ''Capital Expenditures'')
   \<and> ((\<exists>e. build_fcf_dataset_simfin \<lparr>cf_columns = cols, cf_rows = rows\<rparr> inc px = Inl (CapExNotFound e))
        \<longleftrightarrow> (\<forall>c \<in> set CAPEX_CANDS. c \<notin> set cols))
   \<and> ((\<exists>e. build_fcf_dataset \<lparr>cf_columns = cols, cf_rows = rows\<rparr> inc px = Inl (CapExNotFound e))
        \<longleftrightarrow> (\<forall>c \<in> set CAPEX_CANDS. c \<notin> set cols))"
proof -
  have none: "capex_col cols = None \<longleftrightarrow> (\<forall>c \<in> set CAPEX_CANDS. c \<notin> set cols)"
    by (auto simp: capex_col_def find_None_iff)
  have some: "\<forall>c. capex_col cols = Some c \<longleftrightarrow>
          (\<exists>i < length CAPEX_CANDS. CAPEX_CANDS ! i = c \<and> c \<in> set cols
              \<and> (\<forall>j < i. CAPEX_CANDS ! j \<notin> set cols))"
    by (auto simp: capex_col_def find_Some_iff)
  have nonempty: "capex_col cols \<noteq> Some []"
    by (auto simp: capex_col_def find_Some_iff CAPEX_CANDS_def nth_Cons split: nat.splits)
  have last: "''Capital Expenditures'' \<in> set cols
        \<and> ''Change in Fixed Assets & Intangibles'' \<notin> set cols
        \<and> ''Purchase of PPE & Intangibles, net'' \<notin> set cols
        \<and> ''Capital Expenditures (Fixed Assets)'' \<notin> set cols
        \<longrightarrow> capex_col cols = Some ''Capital Expenditures''"
    by (simp add: capex_col_def CAPEX_CANDS_def)
  have res: "(\<exists>e. resolve \<lparr>cf_columns = cols, cf_rows = rows\<rparr> = Inl (CapExNotFound e))
        \<longleftrightarrow> (\<forall>c \<in> set CAPEX_CANDS. c \<notin> set cols)"
    using none nonempty by (auto simp: resolve_def split: option.splits)
  have s1: "(\<exists>e. build_fcf_dataset_simfin \<lparr>cf_columns = cols, cf_rows = rows\<rparr> inc px = Inl (CapExNotFound e))
        \<longleftrightarrow> (\<forall>c \<in> set CAPEX_CANDS. c \<notin> set cols)"
    unfolding res[symmetric] by (auto simp: build_fcf_dataset_simfin_def split: sum.splits)
  have s2: "(\<exists>e. build_fcf_dataset \<lparr>cf_columns = cols, cf_rows = rows\<rparr> inc px = Inl (CapExNotFound e))
        \<longleftrightarrow> (\<forall>c \<in> set CAPEX_CANDS. c \<notin> set cols)"
    unfolding res[symmetric] by (auto simp: build_fcf_dataset_def split: sum.splits)
  from none some last s1 s2 show ?thesis by blast
qed

theorem capex_resolution_witness:
  "capex_col [''Ticker'', ''Report Date'', ''Capital Expenditures''] = Some ''Capital Expenditures''
   \<and> (\<exists>e. build_fcf_dataset_simfin \<lparr>cf_columns = [''Ticker'', ''Report Date''], cf_rows = []\<rparr> [] []
            = Inl (CapExNotFound e))
   \<and> (\<exists>e. build_fcf_dataset \<lparr>cf_columns = [''Ticker'', ''Report Date''], cf_rows = []\<rparr> [] []
            = Inl (CapExNotFound e))"
  using capex_resolution[of "[''Ticker'', ''Report Date'', ''Capital Expenditures'']" "[]" "[]" "[]"]
        capex_resolution[of "[''Ticker'', ''Report Date'']" "[]" "[]" "[]"]
  by (simp add: CAPEX_CANDS_def)

section \<open>The join of the two fundamentals tables\<close>

text \<open>
  Claim C9.  A (Ticker, Report Date) key has a row in the fundamentals frame, before the
  growth columns are computed and after, exactly when it is a key of the cash-flow table and
  a key of the income table and its year is not before the start year.  So a key of only one
  of the two tables has no fundamentals row.
\<close>

theorem fund_keys_inner_join:
  "((\<exists>r \<in> set (fund_sorted capex cf inc). Ticker r = t \<and> ReportDate r = d) \<longleftrightarrow>
      (\<exists>c \<in> set cf. cf_Ticker c = t \<and> cf_ReportDate c = d) \<and>
      (\<exists>i \<in> set inc. inc_Ticker i = t \<and> inc_ReportDate i = d) \<and>
      START_YEAR \<le> year_of d)
   \<and> ((\<exists>f \<in> set (fundamentals capex cf inc). Ticker f = t \<and> ReportDate f = d) \<longleftrightarrow>
      (\<exists>c \<in> set cf. cf_Ticker c = t \<and> cf_ReportDate c = d) \<and>
      (\<exists>i \<in> set inc. inc_Ticker i = t \<and> inc_ReportDate i = d) \<and>
      START_YEAR \<le> year_of d)"
proof -
  have a: "(\<exists>r \<in> set (fund_sorted capex cf inc). Ticker r = t \<and> ReportDate r = d) \<longleftrightarrow>
      (\<exists>c \<in> set cf. cf_Ticker c = t \<and> cf_ReportDate c = d) \<and>
      (\<exists>i \<in> set inc. inc_Ticker i = t \<and> inc_ReportDate i = d) \<and>
      START_YEAR \<le> year_of d" (is "?L \<longleftrightarrow> ?R")
  proof
    assume ?L
    then obtain r where r: "r \<in> set (fund_sorted capex cf inc)" "Ticker r = t" "ReportDate r = d"
      by blast
    from fund_sorted_row[OF r(1)] r(2,3) show ?R by auto
  next
    assume ?R
    then obtain c i where ci: "c \<in> set cf" "cf_Ticker c = t" "cf_ReportDate c = d"
      "i \<in> set inc" "inc_Ticker i = t" "inc_ReportDate i = d" "START_YEAR \<le> year_of d"
      by blast
    have "\<exists>r \<in> set (fund_sorted capex cf inc). Ticker r = cf_Ticker c \<and> ReportDate r = cf_ReportDate c"
      using ci by (intro fund_sorted_has_key) simp_all
    then show ?L using ci(2,3) by simp
  qed
  have "(\<exists>f \<in> set (fundamentals capex cf inc). Ticker f = t \<and> ReportDate f = d) \<longleftrightarrow>
        (t, d) \<in> (\<lambda>r. (Ticker r, ReportDate r)) ` set (fundamentals capex cf inc)"
    by (auto simp: image_iff)
  also have "\<dots> \<longleftrightarrow> (t, d) \<in> (\<lambda>r. (Ticker r, ReportDate r)) ` set (fund_sorted capex cf inc)"
    by (simp only: fundamentals_keys)
  also have "\<dots> \<longleftrightarrow> (\<exists>r \<in> set (fund_sorted capex cf inc). Ticker r = t \<and> ReportDate r = d)"
    by (auto simp: image_iff)
  finally show ?thesis using a by simp
qed

theorem fund_keys_inner_join_witness:
  "(\<exists>f \<in> set (fundamentals ''Capital Expenditures'' ex_cf ex_inc). Ticker f = ''A'' \<and> ReportDate f = 18717)
   \<and> \<not> (\<exists>f \<in> set (fundamentals ''Capital Expenditures'' ex_cf ex_inc). Ticker f = ''B'' \<and> ReportDate f = 18717)"
proof -
  have a: "(\<exists>c \<in> set ex_cf. cf_Ticker c = ''A'' \<and> cf_ReportDate c = 18717) \<and>
           (\<exists>i \<in> set ex_inc. inc_Ticker i = ''A'' \<and> inc_ReportDate i = 18717) \<and>
           START_YEAR \<le> year_of 18717"
    by code_simp
  have b: "\<not> (\<exists>c \<in> set ex_cf. cf_Ticker c = ''B'' \<and> cf_ReportDate c = 18717)"
    by code_simp
  show ?thesis
    using fund_keys_inner_join[of "''Capital Expenditures''" ex_cf ex_inc "''A''" 18717]
          fund_keys_inner_join[of "''Capital Expenditures''" ex_cf ex_inc "''B''" 18717] a b
    by (simp only: simp_thms)
qed

section \<open>Market capitalisation\<close>

text \<open>
  Claim C7.  When the CapEx column resolves, both scripts write the selected columns of the
  rows of \<open>aligned\<close>, and in each such row the market capitalisation is the product of
  the price of the row and its basic share count, which is the share count of an income row
  of the same key.
\<close>

theorem market_cap_product:
  assumes "resolve cf = Inr capex"
  shows "build_fcf_dataset_simfin cf inc px = Inr (map select_final (aligned capex (cf_rows cf) inc px))
    \<and> build_fcf_dataset cf inc px = Inr (map select_basic (aligned capex (cf_rows cf) inc px))
    \<and> (\<forall>m \<in> set (aligned capex (cf_rows cf) inc px).
          Market_Cap m = fmul (Price m) (Shares m)
          \<and> fin_Market_Cap (select_final m) = fmul (fin_Price (select_final m)) (Shares m)
          \<and> bas_Market_Cap (select_basic m) = fmul (bas_Price (select_basic m)) (Shares m)
          \<and> (\<exists>i \<in> set inc. inc_Ticker i = Ticker m \<and> inc_ReportDate i = ReportDate m
                \<and> inc_Shares i = Shares m))"
proof (intro conjI ballI)
  fix m assume m: "m \<in> set (aligned capex (cf_rows cf) inc px)"
  note mc = aligned_row_char(6)[OF m]
  show "Market_Cap m = fmul (Price m) (Shares m)" by (rule mc)
  show "fin_Market_Cap (select_final m) = fmul (fin_Price (select_final m)) (Shares m)"
    using mc by (simp add: select_final_def)
  show "bas_Market_Cap (select_basic m) = fmul (bas_Price (select_basic m)) (Shares m)"
    using mc by (simp add: select_basic_def)
  from fundamentals_row[OF aligned_row_char(1)[OF m]] obtain i where
    "i \<in> set inc" "inc_Ticker i = Ticker (fund_row.truncate m)"
    "inc_ReportDate i = ReportDate (fund_row.truncate m)" "Shares (fund_row.truncate m) = inc_Shares i"
    by blast
  then show "\<exists>i \<in> set inc. inc_Ticker i = Ticker m \<and> inc_ReportDate i = ReportDate m
                \<and> inc_Shares i = Shares m"
    by (intro bexI[of _ i]) (simp_all add: row_defs)
qed (simp_all add: scripts_resolved[OF assms])

theorem market_cap_product_witness:
  "resolve ex_frame = Inr ''Capital Expenditures''
   \<and> ex_aligned ! 2 \<in> set (aligned ''Capital Expenditures'' (cf_rows ex_frame) ex_inc ex_px)
   \<and> Market_Cap (ex_aligned ! 2) = fmul (Price (ex_aligned ! 2)) (Shares (ex_aligned ! 2))
   \<and> fin_Market_Cap (select_final (ex_aligned ! 2)) =
       fmul (fin_Price (select_final (ex_aligned ! 2))) (Shares (ex_aligned ! 2))"
  using market_cap_product[OF ex_resolve, of ex_inc ex_px] ex_aligned_mem ex_resolve
  by blast

section \<open>What alignment leaves unchanged\<close>

text \<open>
  Claim C10.  Every row of the output comes from a row of the fundamentals frame to which the
  alignment added the trade date and the price and nothing else: ticker, report date,
  revenue, net income, FCF, FCF per share and the FCF-per-share growth columns of the output
  row are those of that fundamentals row.
\<close>

theorem alignment_frame:
  assumes "resolve cf = Inr capex"
  shows "build_fcf_dataset_simfin cf inc px = Inr (map select_final (aligned capex (cf_rows cf) inc px))
    \<and> build_fcf_dataset cf inc px = Inr (map select_basic (aligned capex (cf_rows cf) inc px))
    \<and> (\<forall>m \<in> set (aligned capex (cf_rows cf) inc px).
          \<exists>f \<in> set (fundamentals capex (cf_rows cf) inc).
            merged_row.truncate m = fund_row.extend f (merged_row.fields (TradeDate m) (Price m))
            \<and> fin_Ticker (select_final m) = Ticker f
            \<and> fin_ReportDate (select_final m) = ReportDate f
            \<and> fin_Revenue (select_final m) = Revenue f
            \<and> fin_NetIncome (select_final m) = NetIncome f
            \<and> fin_FCF (select_final m) = FCF f
            \<and> fin_FCF_per_share (select_final m) = FCF_per_share f
            \<and> fin_Yo6M_FCFps_growth (select_final m) = Yo6M_FCFps_growth f
            \<and> fin_1Y_FCFps_growth (select_final m) = Y1_FCFps_growth f
            \<and> fin_2Y_FCFps_growth (select_final m) = Y2_FCFps_growth f
            \<and> fin_3Y_FCFps_growth (select_final m) = Y3_FCFps_growth f
            \<and> bas_Ticker (select_basic m) = Ticker f
            \<and> bas_ReportDate (select_basic m) = ReportDate f
            \<and> bas_FCF (select_basic m) = FCF f
            \<and> bas_FCF_per_share (select_basic m) = FCF_per_share f
            \<and> bas_YoY_FCFps_growth (select_basic m) = Y1_FCFps_growth f
            \<and> bas_YoY2_FCFps_growth (select_basic m) = Y2_FCFps_growth f)"
proof (intro conjI ballI)
  fix m assume m: "m \<in> set (aligned capex (cf_rows cf) inc px)"
  show "\<exists>f \<in> set (fundamentals capex (cf_rows cf) inc).
            merged_row.truncate m = fund_row.extend f (merged_row.fields (TradeDate m) (Price m))
            \<and> fin_Ticker (select_final m) = Ticker f
            \<and> fin_ReportDate (select_final m) = ReportDate f
            \<and> fin_Revenue (select_final m) = Revenue f
            \<and> fin_NetIncome (select_final m) = NetIncome f
            \<and> fin_FCF (select_final m) = FCF f
            \<and> fin_FCF_per_share (select_final m) = FCF_per_share f
            \<and> fin_Yo6M_FCFps_growth (select_final m) = Yo6M_FCFps_growth f
            \<and> fin_1Y_FCFps_growth (select_final m) = Y1_FCFps_growth f
            \<and> fin_2Y_FCFps_growth (select_final m) = Y2_FCFps_growth f
            \<and> fin_3Y_FCFps_growth (select_final m) = Y3_FCFps_growth f
            \<and> bas_Ticker (select_basic m) = Ticker f
            \<and> bas_ReportDate (select_basic m) = ReportDate f
            \<and> bas_FCF (select_basic m) = FCF f
            \<and> bas_FCF_per_share (select_basic m) = FCF_per_share f
            \<and> bas_YoY_FCFps_growth (select_basic m) = Y1_FCFps_growth f
            \<and> bas_YoY2_FCFps_growth (select_basic m) = Y2_FCFps_growth f"
    by (rule bexI[OF _ aligned_row_char(1)[OF m]])
       (simp add: select_final_def select_basic_def row_defs)
qed (simp_all add: scripts_resolved[OF assms])

theorem alignment_frame_witness:
  "resolve ex_frame = Inr ''Capital Expenditures''
   \<and> ex_aligned ! 2 \<in> set (aligned ''Capital Expenditures'' (cf_rows ex_frame) ex_inc ex_px)
   \<and> (\<exists>f \<in> set (fundamentals ''Capital Expenditures'' (cf_rows ex_frame) ex_inc).
         fin_Ticker (select_final (ex_aligned ! 2)) = Ticker f
         \<and> fin_ReportDate (select_final (ex_aligned ! 2)) = ReportDate f
         \<and> fin_FCF (select_final (ex_aligned ! 2)) = FCF f
         \<and> fin_FCF_per_share (select_final (ex_aligned ! 2)) = FCF_per_share f
         \<and> fin_Yo6M_FCFps_growth (select_final (ex_aligned ! 2)) = Yo6M_FCFps_growth f)"
proof -
  from alignment_frame[OF ex_resolve, of ex_inc ex_px] ex_aligned_mem
  obtain f where "f \<in> set (fundamentals ''Capital Expenditures'' (cf_rows ex_frame) ex_inc)"
    "fin_Ticker (select_final (ex_aligned ! 2)) = Ticker f"
    "fin_ReportDate (select_final (ex_aligned ! 2)) = ReportDate f"
    "fin_FCF (select_final (ex_aligned ! 2)) = FCF f"
    "fin_FCF_per_share (select_final (ex_aligned ! 2)) = FCF_per_share f"
    "fin_Yo6M_FCFps_growth (select_final (ex_aligned ! 2)) = Yo6M_FCFps_growth f"
    by blast
  then show ?thesis using ex_resolve ex_aligned_mem by blast
qed

section \<open>Rows without a price\<close>

text \<open>
  Claim C4.  A fundamentals row whose ticker has no trade date in the seven days from its
  report date has no row in the output; and every row of the output has a price that is
  not null and a trade date of its ticker within the seven days from its report date.
\<close>

theorem unmatched_dropped:
  assumes "resolve cf = Inr capex"
  shows "build_fcf_dataset_simfin cf inc px = Inr (map select_final (aligned capex (cf_rows cf) inc px))
    \<and> build_fcf_dataset cf inc px = Inr (map select_basic (aligned capex (cf_rows cf) inc px))
    \<and> (\<forall>f \<in> set (fundamentals capex (cf_rows cf) inc).
          \<not> (\<exists>p \<in> set px. px_Ticker p = Ticker f \<and> ReportDate f \<le> px_TradeDate p
                           \<and> px_TradeDate p \<le> ReportDate f + 7)
          \<longrightarrow> \<not> (\<exists>m \<in> set (aligned capex (cf_rows cf) inc px).
                    Ticker m = Ticker f \<and> ReportDate m = ReportDate f))
    \<and> (\<forall>m \<in> set (aligned capex (cf_rows cf) inc px).
          \<not> isna (Price m)
          \<and> \<not> isna (fin_Price (select_final m))
          \<and> \<not> isna (bas_Price (select_basic m))
          \<and> (\<exists>p \<in> set px. px_Ticker p = Ticker m \<and> TradeDate m = Some (px_TradeDate p)
                \<and> ReportDate m \<le> px_TradeDate p \<and> px_TradeDate p \<le> ReportDate m + 7))"
proof -
  have win: "\<exists>p \<in> set px. px_Ticker p = Ticker m \<and> TradeDate m = Some (px_TradeDate p)
                \<and> ReportDate m \<le> px_TradeDate p \<and> px_TradeDate p \<le> ReportDate m + 7"
    if m: "m \<in> set (aligned capex (cf_rows cf) inc px)" for m
  proof -
    let ?C = "candidates px (Ticker m) (ReportDate m)"
    from aligned_row_char(3,4)[OF m] have ne: "?C \<noteq> []"
      and td: "TradeDate m = Some (Min (px_TradeDate ` set ?C))" by simp_all
    from ne have "Min (px_TradeDate ` set ?C) \<in> px_TradeDate ` set ?C"
      by (intro Min_in) simp_all
    then obtain p where p: "p \<in> set ?C" "px_TradeDate p = Min (px_TradeDate ` set ?C)" by auto
    from p(1) have "p \<in> set px" "px_Ticker p = Ticker m" "ReportDate m \<le> px_TradeDate p"
      "px_TradeDate p \<le> ReportDate m + 7"
      by (simp_all add: candidates_def)
    with td p(2) show ?thesis by (intro bexI[of _ p]) simp_all
  qed
  have a: "\<forall>f \<in> set (fundamentals capex (cf_rows cf) inc).
          \<not> (\<exists>p \<in> set px. px_Ticker p = Ticker f \<and> ReportDate f \<le> px_TradeDate p
                           \<and> px_TradeDate p \<le> ReportDate f + 7)
          \<longrightarrow> \<not> (\<exists>m \<in> set (aligned capex (cf_rows cf) inc px).
                    Ticker m = Ticker f \<and> ReportDate m = ReportDate f)"
    using win by metis
  have b: "\<forall>m \<in> set (aligned capex (cf_rows cf) inc px).
          \<not> isna (Price m)
          \<and> \<not> isna (fin_Price (select_final m))
          \<and> \<not> isna (bas_Price (select_basic m))
          \<and> (\<exists>p \<in> set px. px_Ticker p = Ticker m \<and> TradeDate m = Some (px_TradeDate p)
                \<and> ReportDate m \<le> px_TradeDate p \<and> px_TradeDate p \<le> ReportDate m + 7)"
    using win aligned_row_char(2) by (simp add: isna_def select_final_def select_basic_def)
  show ?thesis using a b scripts_resolved[OF assms] by simp
qed

theorem unmatched_dropped_witness:
  "resolve ex_frame = Inr ''Capital Expenditures''
   \<and> ex_fund ! 3 \<in> set (fundamentals ''Capital Expenditures'' (cf_rows ex_frame) ex_inc)
   \<and> \<not> (\<exists>m \<in> set (aligned ''Capital Expenditures'' (cf_rows ex_frame) ex_inc ex_px).
            Ticker m = Ticker (ex_fund ! 3) \<and> ReportDate m = ReportDate (ex_fund ! 3))
   \<and> ex_aligned ! 2 \<in> set (aligned ''Capital Expenditures'' (cf_rows ex_frame) ex_inc ex_px)
   \<and> \<not> isna (Price (ex_aligned ! 2))
   \<and> (\<exists>p \<in> set ex_px. px_Ticker p = Ticker (ex_aligned ! 2)
          \<and> TradeDate (ex_aligned ! 2) = Some (px_TradeDate p)
          \<and> ReportDate (ex_aligned ! 2) \<le> px_TradeDate p
          \<and> px_TradeDate p \<le> ReportDate (ex_aligned ! 2) + 7)"
  using unmatched_dropped[OF ex_resolve, of ex_inc ex_px] ex_resolve ex_fund_mem ex_aligned_mem
        ex_unmatched
  by blast

section \<open>FCF-per-share growth\<close>




section \<open>The aligned price\<close>

text \<open>
  Claim C1, as the specification states it, fails where the price on the earliest trade date
  of the window is null: the third report date of the example, 18900, has the price rows of
  18902 (null) and 18903 (30) in its window, and its row gets the trade date 18902 and the
  price 30.
\<close>

theorem aligned_price_counterexample:
  "candidates ex_px ''A'' 18900 =
     [\<lparr>px_Ticker = ''A'', px_TradeDate = 18902, px_Price = NaN\<rparr>,
      \<lparr>px_Ticker = ''A'', px_TradeDate = 18903, px_Price = Fin 30\<rparr>]
   \<and> map Ticker (aligned ''Capital Expenditures'' ex_cf ex_inc ex_px) = [''A'', ''A'', ''A'']
   \<and> map ReportDate (aligned ''Capital Expenditures'' ex_cf ex_inc ex_px) = [18717, 18808, 18900]
   \<and> map TradeDate (aligned ''Capital Expenditures'' ex_cf ex_inc ex_px) =
        [Some 18718, Some 18808, Some 18902]
   \<and> map Price (aligned ''Capital Expenditures'' ex_cf ex_inc ex_px) = [Fin 10, Fin 20, Fin 30]
   \<and> \<not> price_at_earliest ex_px
          (merged (fundamentals ''Capital Expenditures'' ex_cf ex_inc) ex_px ! 2)"
  by code_simp

text \<open>
  Claim C1, amended.  The join gives every fundamentals row exactly one row, and the rows
  with a null price are then dropped.  A row whose ticker has no trade date in the seven
  days from the report date gets a null trade date and a null price.  Otherwise its trade
  date is the earliest trade date of its ticker in that window, and its price is the first
  price that is not null among the price rows of the window in ascending order of trade
  date (null if all are null).  This is the price on the earliest trade date, as the
  specification has it, whenever no price on that date is null.
\<close>

theorem aligned_price_first_priced:
  fixes px :: "px_row list" and fund :: "fund_row list"
  assumes m: "m \<in> set (merge_back fund (temp fund (prices px)))"
  defines "C \<equiv> candidates px (Ticker m) (ReportDate m)"
  shows "map fund_row.truncate (merge_back fund (temp fund (prices px))) = fund
    \<and> merged fund px = dropna_Price (merge_back fund (temp fund (prices px)))
    \<and> (C = [] \<longrightarrow> TradeDate m = None \<and> isna (Price m))
    \<and> (C \<noteq> [] \<longrightarrow>
          TradeDate m = Some (Min (px_TradeDate ` set C))
          \<and> first_priced C (Price m)
          \<and> ((\<forall>p \<in> set C. px_TradeDate p = Min (px_TradeDate ` set C) \<longrightarrow> \<not> isna (px_Price p))
               \<longrightarrow> price_at_earliest px m))"
proof -
  let ?tmp = "temp fund (prices px)"
  have mb: "merge_back fund ?tmp = map (price_match ?tmp) fund"
    by (rule merge_back_map[OF temp_distinct])
  have 1: "map fund_row.truncate (merge_back fund ?tmp) = fund"
    unfolding mb by (simp add: comp_def)
  from m obtain f where f: "f \<in> set fund" "m = price_match ?tmp f"
    unfolding mb by auto
  have C: "C = candidates px (Ticker f) (ReportDate f)" using f(2) by (simp add: C_def)
  from price_match_char[OF f(1), of px] f(2) C
  have 2: "C = [] \<longrightarrow> TradeDate m = None \<and> isna (Price m)"
    and 3: "C \<noteq> [] \<longrightarrow> TradeDate m = Some (Min (px_TradeDate ` set C)) \<and> first_priced C (Price m)"
    by (simp_all add: isna_def)
  have 4: "C \<noteq> [] \<longrightarrow>
      (\<forall>p \<in> set C. px_TradeDate p = Min (px_TradeDate ` set C) \<longrightarrow> \<not> isna (px_Price p))
               \<longrightarrow> price_at_earliest px m"
  proof (intro impI)
    assume ne: "C \<noteq> []"
      and nn: "\<forall>p \<in> set C. px_TradeDate p = Min (px_TradeDate ` set C) \<longrightarrow> \<not> isna (px_Price p)"
    from 3 ne have td: "TradeDate m = Some (Min (px_TradeDate ` set C))"
      and fp: "first_priced C (Price m)" by simp_all
    from first_priced_earliest[OF fp ne nn] obtain p where
      p: "p \<in> set C" "px_TradeDate p = Min (px_TradeDate ` set C)" "Price m = px_Price p"
      by blast
    have "\<exists>p \<in> set C. px_TradeDate p = Min (px_TradeDate ` set C)
            \<and> TradeDate m = Some (px_TradeDate p) \<and> Price m = px_Price p"
      using p td by (intro bexI[of _ p]) simp_all
    then show "price_at_earliest px m" unfolding price_at_earliest_def C_def .
  qed
  show ?thesis using 1 2 3 4 by (simp add: merged_def)
qed

theorem aligned_price_first_priced_witness:
  "ex_merged_all ! 2 \<in> set (merge_back ex_fund (temp ex_fund (prices ex_px)))
   \<and> candidates ex_px ''A'' 18900 \<noteq> []
   \<and> TradeDate (ex_merged_all ! 2) = Some (Min (px_TradeDate ` set (candidates ex_px ''A'' 18900)))
   \<and> first_priced (candidates ex_px ''A'' 18900) (Price (ex_merged_all ! 2))
   \<and> ex_merged_all ! 3 \<in> set (merge_back ex_fund (temp ex_fund (prices ex_px)))
   \<and> candidates ex_px ''A'' 18992 = []
   \<and> TradeDate (ex_merged_all ! 3) = None \<and> isna (Price (ex_merged_all ! 3))
   \<and> ex_merged_all ! 0 \<in> set (merge_back ex_fund (temp ex_fund (prices ex_px)))
   \<and> price_at_earliest ex_px (ex_merged_all ! 0)"
proof -
  have a: "ex_merged_all ! 2 \<in> set (merge_back ex_fund (temp ex_fund (prices ex_px)))"
    and b: "ex_merged_all ! 3 \<in> set (merge_back ex_fund (temp ex_fund (prices ex_px)))"
    and d: "ex_merged_all ! 0 \<in> set (merge_back ex_fund (temp ex_fund (prices ex_px)))"
    unfolding ex_merge_back by (rule ex_merged_all_rows)+
  have c: "candidates ex_px ''A'' 18900 \<noteq> []" by (simp add: ex_candidates)
  note A = aligned_price_first_priced[OF a, unfolded ex_merged_all_rows]
  note B = aligned_price_first_priced[OF b, unfolded ex_merged_all_rows]
  note D = aligned_price_first_priced[OF d, unfolded ex_merged_all_rows]
  from A B D a b d c ex_candidates(2) ex_candidates_first
  show ?thesis by blast
qed

section \<open>Price growth\<close>

text \<open>
  Claim C2, as the specification states it, fails for a ticker with a quarter that found no
  price.  With the second price series of the example the second of the four quarters is
  dropped.  Over the quarterly periods the six-month growth of the third quarter would be
  \<open>(30 - 10) / 10 = 2\<close> and that of the fourth would be null, its lagged period having no
  price; the scripts give null for the third quarter and \<open>(40 - 10) / 10 = 3\<close>, taken
  against the first quarter, for the fourth, while the FCF-per-share growth of the same row
  is taken against the second quarter.
\<close>

theorem Price_growth_periods_counterexample:
  "map ReportDate (fundamentals ''Capital Expenditures'' ex_cf ex_inc) = [18717, 18808, 18900, 18992]
   \<and> map Price (merge_back (fundamentals ''Capital Expenditures'' ex_cf ex_inc)
                   (temp (fundamentals ''Capital Expenditures'' ex_cf ex_inc) (prices ex_px_gap))) =
        [Fin 10, NaN, Fin 30, Fin 40]
   \<and> Price_growth_over_periods 2
         (merge_back (fundamentals ''Capital Expenditures'' ex_cf ex_inc)
                     (temp (fundamentals ''Capital Expenditures'' ex_cf ex_inc) (prices ex_px_gap))) 2 = Fin 2
   \<and> Price_growth_over_periods 2
         (merge_back (fundamentals ''Capital Expenditures'' ex_cf ex_inc)
                     (temp (fundamentals ''Capital Expenditures'' ex_cf ex_inc) (prices ex_px_gap))) 3 = NaN
   \<and> map ReportDate (aligned ''Capital Expenditures'' ex_cf ex_inc ex_px_gap) = [18717, 18900, 18992]
   \<and> map Price (aligned ''Capital Expenditures'' ex_cf ex_inc ex_px_gap) = [Fin 10, Fin 30, Fin 40]
   \<and> map M6_Price_growth (aligned ''Capital Expenditures'' ex_cf ex_inc ex_px_gap) = [NaN, NaN, Fin 3]
   \<and> map Yo6M_FCFps_growth (aligned ''Capital Expenditures'' ex_cf ex_inc ex_px_gap) =
        [NaN, PInf, Fin (- (1 / 4))]"
  by code_simp

text \<open>
  Claim C2, amended.  Take the rows of a ticker in the aligned frame, that is, its quarterly
  periods that kept a price, which are in ascending order of report date, and a lag \<open>L\<close>
  of the scripts.  The price growth of the row at position \<open>t\<close> of these rows is the float
  quotient \<open>(Price[t] - Price[t-L]) / Price[t-L]\<close> when \<open>L \<le> t\<close>, the trailing-lag
  computation of the fundamentals frame applied to the price of the retained rows, and it is
  null when \<open>t < L\<close>.  The row is the period at some position \<open>t' \<ge> t\<close> of the ticker's
  rows in the fundamentals frame, so the growth is null whenever fewer than \<open>L\<close> quarterly
  periods of the ticker come before it.  The written price-growth columns are these columns.
\<close>

theorem Price_growth_retained:
  fixes cf :: "cf_row list" and inc :: "inc_row list" and px :: "px_row list"
  assumes L: "L \<in> {2, 4, 8, 12}"
    and t: "t < length (filter (\<lambda>r. Ticker r = T) (aligned capex cf inc px))"
  defines "seq \<equiv> filter (\<lambda>r. Ticker r = T) (aligned capex cf inc px)"
    and "periods \<equiv> filter (\<lambda>r. Ticker r = T) (fundamentals capex cf inc)"
  shows "sorted (map ReportDate seq)
    \<and> (L \<le> t \<longrightarrow>
          Price_growth_col L (seq ! t) =
            fdiv (fsub (Price (seq ! t)) (Price (seq ! (t - L)))) (Price (seq ! (t - L))))
    \<and> (t < L \<longrightarrow> isna (Price_growth_col L (seq ! t)))
    \<and> (\<exists>t'. t \<le> t' \<and> t' < length periods \<and> periods ! t' = fund_row.truncate (seq ! t)
              \<and> (t' < L \<longrightarrow> isna (Price_growth_col L (seq ! t))))
    \<and> (length periods \<le> L \<longrightarrow> isna (Price_growth_col L (seq ! t)))
    \<and> fin_6M_Price_growth (select_final (seq ! t)) = Price_growth_col 2 (seq ! t)
    \<and> fin_1Y_Price_growth (select_final (seq ! t)) = Price_growth_col 4 (seq ! t)
    \<and> fin_2Y_Price_growth (select_final (seq ! t)) = Price_growth_col 8 (seq ! t)
    \<and> fin_3Y_Price_growth (select_final (seq ! t)) = Price_growth_col 12 (seq ! t)
    \<and> bas_YoY_Price_growth (select_basic (seq ! t)) = Price_growth_col 4 (seq ! t)
    \<and> bas_YoY2_Price_growth (select_basic (seq ! t)) = Price_growth_col 8 (seq ! t)"
proof -
  have g: "Price_growth_col L (seq ! t) =
         (if t < L then NaN else growth (Price (seq ! t)) (Price (seq ! (t - L))))"
    using Price_growth_seq[OF L, of t T "add_Market_Cap (merged (fundamentals capex cf inc) px)"] t
    unfolding seq_def aligned_def metrics_def by simp
  have 1: "sorted (map ReportDate seq)" unfolding seq_def by (rule aligned_seq_sorted)
  have 2: "t < L \<longrightarrow> isna (Price_growth_col L (seq ! t))" using g by (simp add: isna_def)
  have 3: "L \<le> t \<longrightarrow>
          Price_growth_col L (seq ! t) =
            fdiv (fsub (Price (seq ! t)) (Price (seq ! (t - L)))) (Price (seq ! (t - L)))"
    using g by (simp add: growth_def)
  from aligned_seq_position[OF t] obtain t' where
    t': "t \<le> t'" "t' < length periods" "periods ! t' = fund_row.truncate (seq ! t)"
    unfolding seq_def periods_def by blast
  have "t' < L \<longrightarrow> isna (Price_growth_col L (seq ! t))" using 2 t'(1) by simp
  with t' have 4: "\<exists>t'. t \<le> t' \<and> t' < length periods \<and> periods ! t' = fund_row.truncate (seq ! t)
              \<and> (t' < L \<longrightarrow> isna (Price_growth_col L (seq ! t)))"
    by blast
  have 5: "length periods \<le> L \<longrightarrow> isna (Price_growth_col L (seq ! t))"
    using 2 t'(1,2) by simp
  have 6: "fin_6M_Price_growth (select_final (seq ! t)) = Price_growth_col 2 (seq ! t)
    \<and> fin_1Y_Price_growth (select_final (seq ! t)) = Price_growth_col 4 (seq ! t)
    \<and> fin_2Y_Price_growth (select_final (seq ! t)) = Price_growth_col 8 (seq ! t)
    \<and> fin_3Y_Price_growth (select_final (seq ! t)) = Price_growth_col 12 (seq ! t)
    \<and> bas_YoY_Price_growth (select_basic (seq ! t)) = Price_growth_col 4 (seq ! t)
    \<and> bas_YoY2_Price_growth (select_basic (seq ! t)) = Price_growth_col 8 (seq ! t)"
    by (simp add: select_final_def select_basic_def Price_growth_col_def)
  show ?thesis using 1 2 3 4 5 6 by blast
qed

theorem Price_growth_retained_witness:
  "isna (Price_growth_col 2 (ex_gap_aligned ! 1))
   \<and> Price_growth_col 2 (ex_gap_aligned ! 2) =
       fdiv (fsub (Price (ex_gap_aligned ! 2)) (Price (ex_gap_aligned ! (2 - 2))))
            (Price (ex_gap_aligned ! (2 - 2)))
   \<and> ReportDate (ex_gap_aligned ! 2) = 18992 \<and> ReportDate (ex_gap_aligned ! 0) = 18717
   \<and> sorted (map ReportDate ex_gap_aligned)
   \<and> (\<exists>t'. 2 \<le> t' \<and> t' < length ex_fund \<and> ex_fund ! t' = fund_row.truncate (ex_gap_aligned ! 2))"
proof -
  have L: "(2::nat) \<in> {2, 4, 8, 12}" by simp
  have t1: "1 < length (filter (\<lambda>r. Ticker r = ''A'') (aligned ''Capital Expenditures'' ex_cf ex_inc ex_px_gap))"
    and t2: "2 < length (filter (\<lambda>r. Ticker r = ''A'') (aligned ''Capital Expenditures'' ex_cf ex_inc ex_px_gap))"
    unfolding ex_gap_aligned_seq by (simp_all add: ex_gap_aligned_values)
  note A = Price_growth_retained[OF L t1, unfolded ex_gap_aligned_seq ex_fund_seq]
  note B = Price_growth_retained[OF L t2, unfolded ex_gap_aligned_seq ex_fund_seq]
  have lt: "(1::nat) < 2" and le: "(2::nat) \<le> 2" by simp_all
  from A lt have a: "isna (Price_growth_col 2 (ex_gap_aligned ! 1))" by blast
  from B le have b: "Price_growth_col 2 (ex_gap_aligned ! 2) =
       fdiv (fsub (Price (ex_gap_aligned ! 2)) (Price (ex_gap_aligned ! (2 - 2))))
            (Price (ex_gap_aligned ! (2 - 2)))" by blast
  from B have c: "sorted (map ReportDate ex_gap_aligned)" by blast
  from B have d: "\<exists>t'. 2 \<le> t' \<and> t' < length ex_fund \<and> ex_fund ! t' = fund_row.truncate (ex_gap_aligned ! 2)"
    by blast
  show ?thesis using a b c d ex_gap_aligned_values(2,3) by blast
qed

end
